theory Spec2Isabelle
  imports Complex_Main
begin

section \<open>Similarity metric\<close>

text \<open>
  JavaScript strings are sequences of UTF-16 code units and \<open>.length\<close> counts code
  units, so a text is a list over an arbitrary alphabet \<open>'a\<close>; the examples use
  \<^typ>\<open>char\<close> for ASCII texts. JavaScript numbers are IEEE doubles; the model
  computes the similarity with exact reals, so rounding in the last bit of a quotient
  is not modelled. What JavaScript prints for a double is not computed by the model
  (see \<open>toFixed2\<close> below).
\<close>

text \<open>
  Modelled from the spec: \<open>levenshtein.get\<close> belongs to the npm package
  \<open>fast-levenshtein\<close>, which is required by the server but is not part of the
  repository. The spec describes it as the classic single-character
  insertion/deletion/substitution distance; this is its textbook recurrence.
\<close>

fun levenshtein_get :: "'a list \<Rightarrow> 'a list \<Rightarrow> nat" where
  "levenshtein_get [] str2 = length str2"
| "levenshtein_get (c # str1) [] = length (c # str1)"
| "levenshtein_get (c # str1) (d # str2) =
     min (min (levenshtein_get str1 (d # str2) + 1) (levenshtein_get (c # str1) str2 + 1))
         (levenshtein_get str1 str2 + (if c = d then 0 else 1))"

text \<open>
  What "distance" means: \<open>edits str1 str2 n\<close> holds when \<open>str1\<close> can be turned into
  \<open>str2\<close> by \<open>n\<close> single-character insertions, deletions and substitutions.
\<close>

inductive edits :: "'a list \<Rightarrow> 'a list \<Rightarrow> nat \<Rightarrow> bool" where
  nothing: "edits [] [] 0"
| keep: "edits str1 str2 n \<Longrightarrow> edits (c # str1) (c # str2) n"
| delete: "edits str1 str2 n \<Longrightarrow> edits (c # str1) str2 (Suc n)"
| insert: "edits str1 str2 n \<Longrightarrow> edits str1 (d # str2) (Suc n)"
| substitute: "edits str1 str2 n \<Longrightarrow> edits (c # str1) (d # str2) (Suc n)"

text \<open>
  \<^verbatim>\<open>
  function calculateSimilarity(text1, text2) {
      if (!text1.length || !text2.length) return 0;
      const maxLength = Math.max(text1.length, text2.length);
      const distance = levenshtein.get(text1, text2);
      return 1 - (distance / maxLength);
  }
  \<close>
\<close>

definition calculateSimilarity :: "'a list \<Rightarrow> 'a list \<Rightarrow> real" where
  "calculateSimilarity text1 text2 =
     (if length text1 = 0 \<or> length text2 = 0 then 0
      else let maxLength = max (length text1) (length text2);
               distance = levenshtein_get text1 text2
           in 1 - real distance / real maxLength)"

section \<open>Rendering numbers\<close>

text \<open>
  The template literal \<^verbatim>\<open>`${docId}_${fileName}`\<close> prints the integer timestamp in
  decimal.
\<close>

definition digitChar :: "nat \<Rightarrow> char" where
  "digitChar d = ''0123456789'' ! d"

fun decimal :: "nat \<Rightarrow> string" where
  "decimal n = (if n < 10 then [digitChar n] else decimal (n div 10) @ [digitChar (n mod 10)])"

declare decimal.simps [simp del]

section \<open>Paths\<close>

text \<open>
  \<^verbatim>\<open>path.join(uploadDir, name)\<close> on a POSIX system joins the two with a slash and
  normalises the result: empty segments and \<open>.\<close> are dropped, and \<open>..\<close> removes the
  segment before it (at the root there is none to remove). The upload directory is an
  absolute, normalised path, given by its segments; the result is the list of segments
  of the absolute path that the file operation is given. Two names can so resolve to
  one file. A trailing slash is not kept apart: whether the file system then accepts
  the operation is an input of the model like every other rejection.
\<close>

fun split_path :: "string \<Rightarrow> string list" where
  "split_path [] = [[]]"
| "split_path (c # cs) =
     (if c = CHR ''/'' then [] # split_path cs
      else (case split_path cs of [] \<Rightarrow> [[c]] | seg # segs \<Rightarrow> (c # seg) # segs))"

fun normalize_path :: "string list \<Rightarrow> string list \<Rightarrow> string list" where
  "normalize_path res [] = res"
| "normalize_path res (seg # segs) =
     (if seg = [] \<or> seg = ''.'' then normalize_path res segs
      else if seg = ''..'' then normalize_path (butlast res) segs
      else normalize_path (res @ [seg]) segs)"

definition path_join :: "string list \<Rightarrow> string \<Rightarrow> string list" where
  "path_join dir name = normalize_path dir (split_path name)"

section \<open>Tables, files and console\<close>

text \<open>
  The three SQLite tables of \<open>database.js\<close> are lists of rows in insertion order. The
  columns \<open>requestedAt\<close> and \<open>uploadedAt\<close> are never read by the server and are left
  out. \<open>INTEGER\<close> columns are unbounded integers. The file system is a partial map from
  absolute paths to the text of the file there, and the console is the list of lines
  printed so far.

  The column \<open>amount\<close> has \<open>INTEGER\<close> affinity, which keeps a text that is not a number as
  text: a stored amount is a number or a text. Balances and amounts with a fraction are
  outside the model.
\<close>

datatype role = User | Admin

datatype request_status = Pending | Approved | Rejected

datatype stored_amount = Number int | Text string

record user_row =
  user_id :: nat
  username :: string
  email :: string
  password :: string
  role :: role
  credits :: int

record credit_request_row =
  request_id :: nat
  request_userId :: nat
  amount :: stored_amount
  status :: request_status

record document_row =
  document_id :: nat
  userId :: nat
  filePath :: string
  fileName :: string

record match =
  match_fileName :: string
  match_similarity :: string

text \<open>
  Console lines: \<open>LogComparing fileName docFileName similarity\<close> and
  \<open>LogReadError filePath\<close> come from the comparison loop, \<open>LogMatches\<close> ends a scan,
  \<open>LogError\<close> is printed by a \<open>catch\<close> block, \<open>LogReset changes\<close> by the cron job,
  and \<open>LogLine\<close> is a fixed message.
\<close>

datatype log_event =
    LogComparing string string real
  | LogReadError string
  | LogMatches "match list"
  | LogError
  | LogReset nat
  | LogLine string

record world =
  users :: "user_row list"
  credit_requests :: "credit_request_row list"
  documents :: "document_row list"
  files :: "string list \<rightharpoonup> string"
  console :: "log_event list"

definition console_log :: "log_event \<Rightarrow> world \<Rightarrow> world" where
  "console_log ev w = w\<lparr>console := console w @ [ev]\<rparr>"

text \<open>
  Every awaited database statement or file operation can reject. Which ones do is an
  input of the model: \<open>fails\<close> names the rejected operations of a request,
  \<open>readFails\<close> the stored names whose read is rejected, and \<open>now\<close> is the value of
  \<^verbatim>\<open>Date.now()\<close>. A rejected statement leaves the tables and files as they were.
  \<open>uploadDir\<close> is \<^verbatim>\<open>path.join(__dirname, 'uploads')\<close>, as segments.

  What the platform computes outside the code of the repository is an input as well:
  \<^item> \<open>toFixed2 x\<close> is the text of \<^verbatim>\<open>(similarity * 100).toFixed(2)\<close>, where \<open>x\<close> is the
    exact value of the score times 100 (JavaScript formats the double it computed);
  \<^item> \<open>lessThanOne s\<close> is the JavaScript value of \<^verbatim>\<open>s < 1\<close> for a string \<open>s\<close>: the string
    is converted to a number, and the comparison is false when that is \<open>NaN\<close>;
  \<^item> \<open>integerAffinity s\<close> is what a column of \<open>INTEGER\<close> affinity stores for the text
    \<open>s\<close>: the number when the text is a numeric literal, the text itself otherwise;
  \<^item> \<open>sqliteNumeric s\<close> is the number SQLite uses for the text \<open>s\<close> as an operand of
    \<open>+\<close>: the longest numeric prefix, or 0.
\<close>

datatype io_op =
    Scan_SelectCredits | Scan_UpdateCredits | Scan_WriteFile | Scan_InsertDocument
  | Scan_SelectDocuments
  | Request_Insert
  | Approve_SelectRequest | Approve_UpdateCredits | Approve_UpdateStatus
  | Reject_UpdateStatus
  | Register_SelectUser | Register_Insert
  | Reset_Update

record env =
  now :: nat
  fails :: "io_op \<Rightarrow> bool"
  readFails :: "string \<Rightarrow> bool"
  uploadDir :: "string list"
  toFixed2 :: "real \<Rightarrow> string"
  lessThanOne :: "string \<Rightarrow> bool"
  integerAffinity :: "string \<Rightarrow> stored_amount"
  sqliteNumeric :: "string \<Rightarrow> int"

record session_user =
  session_id :: nat
  session_role :: role

text \<open>
  A response is a status with a message, \<open>Json status message\<close>; the 200 answer of a
  scan, \<open>ScanJson docId creditsLeft fileName matches\<close>; or the 200 answer of an
  approval, \<open>ApprovedJson amount userId\<close>.
\<close>

datatype response =
    Json nat string
  | ScanJson nat int string "match list"
  | ApprovedJson stored_amount nat

text \<open>\<open>AUTOINCREMENT\<close>: one more than the largest id used so far (rows are never deleted).\<close>

definition next_id :: "nat list \<Rightarrow> nat" where
  "next_id ids = Suc (fold max ids 0)"

text \<open>\<^verbatim>\<open>SELECT ... FROM users WHERE id = ?\<close> through \<open>db.get\<close>: the first matching row.\<close>

definition select_user :: "nat \<Rightarrow> user_row list \<Rightarrow> user_row option" where
  "select_user i us = find (\<lambda>u. user_id u = i) us"

text \<open>\<^verbatim>\<open>UPDATE users SET credits = <f credits> WHERE id = ?\<close>\<close>

definition update_credits :: "(int \<Rightarrow> int) \<Rightarrow> nat \<Rightarrow> user_row list \<Rightarrow> user_row list" where
  "update_credits f i us =
     map (\<lambda>u. if user_id u = i then u\<lparr>credits := f (credits u)\<rparr> else u) us"

text \<open>\<^verbatim>\<open>SELECT userId, amount FROM credit_requests WHERE id = ?\<close>\<close>

definition select_request :: "nat \<Rightarrow> credit_request_row list \<Rightarrow> credit_request_row option" where
  "select_request i rs = find (\<lambda>r. request_id r = i) rs"

text \<open>\<^verbatim>\<open>UPDATE credit_requests SET status = ? WHERE id = ?\<close>\<close>

definition set_status ::
  "request_status \<Rightarrow> nat \<Rightarrow> credit_request_row list \<Rightarrow> credit_request_row list" where
  "set_status s i rs = map (\<lambda>r. if request_id r = i then r\<lparr>status := s\<rparr> else r) rs"

text \<open>
  \<^verbatim>\<open>SELECT filePath, fileName FROM documents WHERE filePath != ?\<close>
  (the spec calls this query \<open>listExcept\<close>).
\<close>

definition listExcept :: "string \<Rightarrow> document_row list \<Rightarrow> document_row list" where
  "listExcept savedFileName docs = filter (\<lambda>d. filePath d \<noteq> savedFileName) docs"

text \<open>\<^verbatim>\<open>fs.promises.readFile(path.join(uploadDir, doc.filePath), 'utf8')\<close>\<close>

definition readFile :: "env \<Rightarrow> world \<Rightarrow> string \<Rightarrow> string option" where
  "readFile e w p = (if readFails e p then None else files w (path_join (uploadDir e) p))"

text \<open>The \<open>catch (error)\<close> block of a handler.\<close>

definition internal_error :: "world \<Rightarrow> response \<times> world" where
  "internal_error w = (Json 500 ''Internal Server Error'', console_log LogError w)"

section \<open>The scan handler\<close>

text \<open>
  The comparison loop of \<open>/scan\<close>:
  \<^verbatim>\<open>
  for (const doc of docs) {
      try {
          const existingFilePath = path.join(uploadDir, doc.filePath);
          const existingText = await fs.promises.readFile(existingFilePath, 'utf8');
          const similarity = calculateSimilarity(text, existingText);
          console.log(`Comparing ${fileName} with ${doc.fileName}: Similarity = ${similarity}`);
          if (similarity > 0.6) {
              matches.push({ fileName: doc.fileName,
                             similarity: (similarity * 100).toFixed(2) + '%' });
          }
      } catch (err) {
          console.error("Error reading file:", doc.filePath, err);
      }
  }
  \<close>
\<close>

definition compareDoc ::
  "env \<Rightarrow> string \<Rightarrow> string \<Rightarrow> document_row \<Rightarrow> match list \<times> world \<Rightarrow> match list \<times> world" where
  "compareDoc e text file_name doc st =
     (case st of (matches, w) \<Rightarrow>
        (case readFile e w (filePath doc) of
           None \<Rightarrow> (matches, console_log (LogReadError (filePath doc)) w)
         | Some existingText \<Rightarrow>
             let similarity = calculateSimilarity text existingText;
                 w' = console_log (LogComparing file_name (fileName doc) similarity) w
             in if similarity > 0.6
                then (matches @ [\<lparr>match_fileName = fileName doc,
                                  match_similarity = toFixed2 e (similarity * 100) @ ''%''\<rparr>], w')
                else (matches, w')))"

fun compareDocs ::
  "env \<Rightarrow> string \<Rightarrow> string \<Rightarrow> document_row list \<Rightarrow> match list \<times> world \<Rightarrow> match list \<times> world" where
  "compareDocs e text file_name [] st = st"
| "compareDocs e text file_name (doc # docs) st =
     compareDocs e text file_name docs (compareDoc e text file_name doc st)"

text \<open>The end of the handler: log the matches and answer 200.\<close>

definition scan_respond ::
  "nat \<Rightarrow> user_row \<Rightarrow> string \<Rightarrow> match list \<times> world \<Rightarrow> response \<times> world" where
  "scan_respond docId user file_name st =
     (case st of (matches, w) \<Rightarrow>
        (ScanJson docId (credits user - 1) file_name matches,
         console_log (LogMatches matches) w))"

definition savedFileName_of :: "nat \<Rightarrow> string \<Rightarrow> string" where
  "savedFileName_of docId file_name = decimal docId @ ''_'' @ file_name"

text \<open>
  \<open>app.post('/scan', ...)\<close>. The body fields \<open>text\<close> and \<open>fileName\<close> are strings; an
  absent field and the empty string are both falsy and are both the empty list here.
  The file is written at \<^verbatim>\<open>path.join(uploadDir, savedFileName)\<close>.
\<close>

definition post_scan ::
  "env \<Rightarrow> session_user option \<Rightarrow> string \<Rightarrow> string \<Rightarrow> world \<Rightarrow> response \<times> world" where
  "post_scan e session text file_name w =
     (case session of
        None \<Rightarrow> (Json 401 ''Not Authorized! Please Login'', w)
      | Some su \<Rightarrow>
          if text = [] \<or> file_name = []
          then (Json 400 ''Text content and file name are required!'', w)
          else if fails e Scan_SelectCredits then internal_error w
          else (case select_user (session_id su) (users w) of
             None \<Rightarrow> (Json 403 ''Insufficient credits! Please request.'', w)
           | Some user \<Rightarrow>
               if credits user < 1
               then (Json 403 ''Insufficient credits! Please request.'', w)
               else if fails e Scan_UpdateCredits then internal_error w
               else
                 let w1 = w\<lparr>users := update_credits (\<lambda>c. c - 1) (session_id su) (users w)\<rparr>;
                     docId = now e;
                     savedFileName = savedFileName_of docId file_name
                 in if fails e Scan_WriteFile then internal_error w1
                    else
                      let file_path = path_join (uploadDir e) savedFileName;
                          w2 = w1\<lparr>files := (files w1)(file_path \<mapsto> text)\<rparr>
                      in if fails e Scan_InsertDocument then internal_error w2
                         else
                           let w3 = w2\<lparr>documents := documents w2 @
                                      [\<lparr>document_id = next_id (map document_id (documents w2)),
                                        userId = session_id su,
                                        filePath = savedFileName,
                                        fileName = file_name\<rparr>]\<rparr>
                           in if fails e Scan_SelectDocuments then internal_error w3
                              else
                                let docs = listExcept savedFileName (documents w3)
                                in scan_respond docId user file_name
                                     (compareDocs e text file_name docs ([], w3))))"

section \<open>Credit requests, registration and the daily reset\<close>

text \<open>
  The field \<open>amount\<close> of a request body is absent or \<open>null\<close>, a number or a string (other
  JSON values are not modelled). \<open>!amount\<close> holds for an absent amount, for 0 and for
  the empty string.
\<close>

datatype json = JNull | JNumber int | JString string

fun js_not :: "json \<Rightarrow> bool" where
  "js_not JNull = True"
| "js_not (JNumber n) = (n = 0)"
| "js_not (JString s) = (s = [])"

fun js_less_than_one :: "env \<Rightarrow> json \<Rightarrow> bool" where
  "js_less_than_one e JNull = True"
| "js_less_than_one e (JNumber n) = (n < 1)"
| "js_less_than_one e (JString s) = lessThanOne e s"

text \<open>What the column \<open>amount\<close> holds after the insert.\<close>

fun inserted_amount :: "env \<Rightarrow> json \<Rightarrow> stored_amount" where
  "inserted_amount e JNull = Number 0"
| "inserted_amount e (JNumber n) = Number n"
| "inserted_amount e (JString s) = integerAffinity e s"

text \<open>
  \<open>app.post('/credits/request', ...)\<close>:
  \<^verbatim>\<open>if (!amount || amount < 1) return res.status(400)...\<close>
\<close>

definition post_credits_request ::
  "env \<Rightarrow> session_user option \<Rightarrow> json \<Rightarrow> world \<Rightarrow> response \<times> world" where
  "post_credits_request e session amt w =
     (case session of
        None \<Rightarrow> (Json 401 ''Not Authorized! Please Login'', w)
      | Some su \<Rightarrow>
          if js_not amt \<or> js_less_than_one e amt
          then (Json 400 ''Invalid credit request amount!'', w)
          else if fails e Request_Insert then internal_error w
          else (Json 200 ''Credit request submitted for admin approval.'',
                w\<lparr>credit_requests := credit_requests w @
                     [\<lparr>request_id = next_id (map request_id (credit_requests w)),
                       request_userId = session_id su,
                       amount = inserted_amount e amt,
                       status = Pending\<rparr>]\<rparr>))"

definition is_admin :: "session_user option \<Rightarrow> bool" where
  "is_admin session = (case session of None \<Rightarrow> False | Some su \<Rightarrow> session_role su = Admin)"

text \<open>
  The value SQLite adds in \<^verbatim>\<open>credits + ?\<close> when the parameter is the stored amount.
\<close>

fun sqlite_operand :: "env \<Rightarrow> stored_amount \<Rightarrow> int" where
  "sqlite_operand e (Number n) = n"
| "sqlite_operand e (Text s) = sqliteNumeric e s"

text \<open>\<open>app.post('/admin/approve-request/:requestId', ...)\<close>\<close>

definition post_admin_approve_request ::
  "env \<Rightarrow> session_user option \<Rightarrow> nat \<Rightarrow> world \<Rightarrow> response \<times> world" where
  "post_admin_approve_request e session requestId w =
     (if \<not> is_admin session then (Json 403 ''Access Denied! Admin only.'', w)
      else if fails e Approve_SelectRequest then internal_error w
      else (case select_request requestId (credit_requests w) of
         None \<Rightarrow> (Json 404 ''Credit request not found.'', w)
       | Some request \<Rightarrow>
           if fails e Approve_UpdateCredits then internal_error w
           else
             let w1 = w\<lparr>users := update_credits (\<lambda>c. c + sqlite_operand e (amount request))
                                      (request_userId request) (users w)\<rparr>
             in if fails e Approve_UpdateStatus then internal_error w1
                else (ApprovedJson (amount request) (request_userId request),
                      w1\<lparr>credit_requests :=
                           set_status Approved requestId (credit_requests w1)\<rparr>)))"

text \<open>\<open>app.post('/admin/reject-request/:requestId', ...)\<close>\<close>

definition post_admin_reject_request ::
  "env \<Rightarrow> session_user option \<Rightarrow> nat \<Rightarrow> world \<Rightarrow> response \<times> world" where
  "post_admin_reject_request e session requestId w =
     (if \<not> is_admin session then (Json 403 ''Access Denied! Admin only.'', w)
      else if fails e Reject_UpdateStatus then internal_error w
      else (Json 200 ''Credit request rejected successfully!'',
            w\<lparr>credit_requests := set_status Rejected requestId (credit_requests w)\<rparr>))"

text \<open>
  \<open>app.post('/auth/register', ...)\<close>. The column defaults give the new row the role
  \<open>'user'\<close> and 20 credits. \<open>hashed\<close> is the result of \<open>bcrypt.hash(password, 10)\<close>.
\<close>

definition post_auth_register ::
  "env \<Rightarrow> string \<Rightarrow> string \<Rightarrow> string \<Rightarrow> string \<Rightarrow> world \<Rightarrow> response \<times> world" where
  "post_auth_register e uname mail pw hashed w =
     (if uname = [] \<or> mail = [] \<or> pw = [] then (Json 400 ''All fields are required!'', w)
      else if fails e Register_SelectUser then internal_error w
      else (case find (\<lambda>u. email u = mail \<or> username u = uname) (users w) of
         Some user \<Rightarrow> (Json 400 ''Email or Username already exists!'', w)
       | None \<Rightarrow>
           if fails e Register_Insert then internal_error w
           else (Json 201 ''User registered successfully!'',
                 w\<lparr>users := users w @
                      [\<lparr>user_id = next_id (map user_id (users w)),
                        username = uname, email = mail, password = hashed,
                        role = User, credits = 20\<rparr>]\<rparr>)))"

text \<open>
  \<open>createAdminUser\<close> of \<open>database.js\<close>, run once at start-up. \<open>adminPassword\<close> is the
  environment variable \<open>ADMIN_PASSWORD\<close>, empty when it is not set; \<open>uname\<close> and \<open>mail\<close>
  are the configured name and address or their defaults. The \<open>UNIQUE\<close> columns reject
  the insert when the name or the address is taken, which \<open>initializeDatabase\<close> catches
  and logs.
\<close>

definition createAdminUser :: "string \<Rightarrow> string \<Rightarrow> string \<Rightarrow> string \<Rightarrow> world \<Rightarrow> world" where
  "createAdminUser adminPassword uname mail hashed w =
     (case find (\<lambda>u. role u = Admin) (users w) of
        Some admin \<Rightarrow> console_log (LogLine ''Admin user already exists.'') w
      | None \<Rightarrow>
          if adminPassword = []
          then console_log
                 (LogLine ''ADMIN_PASSWORD is not set in the environment variables.'') w
          else if list_ex (\<lambda>u. username u = uname \<or> email u = mail) (users w)
          then console_log (LogLine ''Database initialization error:'') w
          else console_log (LogLine ''Admin created successfully!'')
                 (w\<lparr>users := users w @
                    [\<lparr>user_id = next_id (map user_id (users w)),
                      username = uname, email = mail, password = hashed,
                      role = Admin, credits = 9999\<rparr>]\<rparr>))"

text \<open>
  The cron job at midnight UTC:
  \<^verbatim>\<open>UPDATE users SET credits = 20 WHERE role = 'user'\<close>
\<close>

definition reset_credits :: "env \<Rightarrow> world \<Rightarrow> world" where
  "reset_credits e w =
     (let w0 = console_log (LogLine ''Running credit reset cron job...'') w
      in if fails e Reset_Update
         then console_log (LogLine ''Error resetting credits:'') w0
         else console_log (LogReset (length (filter (\<lambda>u. role u = User) (users w0))))
                (w0\<lparr>users := map (\<lambda>u. if role u = User then u\<lparr>credits := 20\<rparr> else u)
                                  (users w0)\<rparr>))"

section \<open>Sequences of requests\<close>

datatype operation =
    Register env string string string string
  | CreateAdmin string string string string
  | Scan env "session_user option" string string
  | RequestCredits env "session_user option" json
  | Approve env "session_user option" nat
  | Reject env "session_user option" nat
  | ResetCredits env

fun exec :: "operation \<Rightarrow> world \<Rightarrow> world" where
  "exec (Register e uname mail pw hashed) w = snd (post_auth_register e uname mail pw hashed w)"
| "exec (CreateAdmin adminPassword uname mail hashed) w =
     createAdminUser adminPassword uname mail hashed w"
| "exec (Scan e session text file_name) w = snd (post_scan e session text file_name w)"
| "exec (RequestCredits e session amt) w = snd (post_credits_request e session amt w)"
| "exec (Approve e session requestId) w = snd (post_admin_approve_request e session requestId w)"
| "exec (Reject e session requestId) w = snd (post_admin_reject_request e session requestId w)"
| "exec (ResetCredits e) w = reset_credits e w"

fun run :: "operation list \<Rightarrow> world \<Rightarrow> world" where
  "run [] w = w"
| "run (op # ops) w = run ops (exec op w)"

definition credits_nonneg :: "world \<Rightarrow> bool" where
  "credits_nonneg w = list_all (\<lambda>u. 0 \<le> credits u) (users w)"

definition requests_valid :: "world \<Rightarrow> bool" where
  "requests_valid w =
     list_all (\<lambda>r. case amount r of Number n \<Rightarrow> 1 \<le> n | Text s \<Rightarrow> False) (credit_requests w)"

text \<open>
  A sequence of requests in which no credit request sends a string as its amount.
\<close>

fun numeric_request :: "operation \<Rightarrow> bool" where
  "numeric_request (RequestCredits e session (JString s)) = False"
| "numeric_request op = True"

text \<open>
  \<open>id\<close> is the primary key of \<open>users\<close>; \<open>requests_valid\<close> says that every stored amount
  is a number of at least 1. A fresh database has empty tables.
\<close>

definition db_consistent :: "world \<Rightarrow> bool" where
  "db_consistent w = (distinct (map user_id (users w)) \<and> credits_nonneg w \<and> requests_valid w)"

definition initial_world :: world where
  "initial_world = \<lparr>users = [], credit_requests = [], documents = [], files = Map.empty, console = []\<rparr>"

section \<open>The scan handler, one awaited operation at a time\<close>

text \<open>
  Node runs a handler until its next \<open>await\<close> and then serves other requests, so two
  \<open>/scan\<close> requests interleave at their awaited operations. A request in flight is at
  one of these points, holding the local variables the rest of the handler reads
  (\<open>req.session.user.id\<close>, \<open>user\<close>, \<open>docId\<close>, \<open>savedFileName\<close>, the documents still
  to compare and \<open>matches\<close>). A step performs the awaited operation on the shared
  tables and files and runs the handler up to the next \<open>await\<close>.
\<close>

datatype scan_pc =
    AwaitSelectCredits nat
  | AwaitUpdateCredits nat user_row
  | AwaitWriteFile nat user_row nat string
  | AwaitInsertDocument nat user_row nat string
  | AwaitSelectDocuments user_row nat string
  | AwaitReadFile user_row nat "document_row list" "match list"
  | Finished response

definition scan_start :: "session_user option \<Rightarrow> string \<Rightarrow> string \<Rightarrow> scan_pc" where
  "scan_start session text file_name =
     (case session of
        None \<Rightarrow> Finished (Json 401 ''Not Authorized! Please Login'')
      | Some su \<Rightarrow>
          if text = [] \<or> file_name = []
          then Finished (Json 400 ''Text content and file name are required!'')
          else AwaitSelectCredits (session_id su))"

definition scan_failed :: "world \<Rightarrow> scan_pc \<times> world" where
  "scan_failed w = (Finished (fst (internal_error w)), snd (internal_error w))"

definition scan_next_doc ::
  "user_row \<Rightarrow> nat \<Rightarrow> string \<Rightarrow> document_row list \<Rightarrow> match list \<times> world \<Rightarrow> scan_pc \<times> world" where
  "scan_next_doc user docId file_name docs st =
     (if docs = []
      then (Finished (fst (scan_respond docId user file_name st)),
            snd (scan_respond docId user file_name st))
      else (AwaitReadFile user docId docs (fst st), snd st))"

fun scan_step :: "env \<Rightarrow> string \<Rightarrow> string \<Rightarrow> scan_pc \<Rightarrow> world \<Rightarrow> scan_pc \<times> world" where
  "scan_step e text file_name (AwaitSelectCredits sid) w =
     (if fails e Scan_SelectCredits then scan_failed w
      else (case select_user sid (users w) of
         None \<Rightarrow> (Finished (Json 403 ''Insufficient credits! Please request.''), w)
       | Some user \<Rightarrow>
           if credits user < 1
           then (Finished (Json 403 ''Insufficient credits! Please request.''), w)
           else (AwaitUpdateCredits sid user, w)))"
| "scan_step e text file_name (AwaitUpdateCredits sid user) w =
     (if fails e Scan_UpdateCredits then scan_failed w
      else (AwaitWriteFile sid user (now e) (savedFileName_of (now e) file_name),
            w\<lparr>users := update_credits (\<lambda>c. c - 1) sid (users w)\<rparr>))"
| "scan_step e text file_name (AwaitWriteFile sid user docId savedFileName) w =
     (if fails e Scan_WriteFile then scan_failed w
      else (AwaitInsertDocument sid user docId savedFileName,
            w\<lparr>files := (files w)(path_join (uploadDir e) savedFileName \<mapsto> text)\<rparr>))"
| "scan_step e text file_name (AwaitInsertDocument sid user docId savedFileName) w =
     (if fails e Scan_InsertDocument then scan_failed w
      else (AwaitSelectDocuments user docId savedFileName,
            w\<lparr>documents := documents w @
                 [\<lparr>document_id = next_id (map document_id (documents w)),
                   userId = sid,
                   filePath = savedFileName,
                   fileName = file_name\<rparr>]\<rparr>))"
| "scan_step e text file_name (AwaitSelectDocuments user docId savedFileName) w =
     (if fails e Scan_SelectDocuments then scan_failed w
      else scan_next_doc user docId file_name (listExcept savedFileName (documents w)) ([], w))"
| "scan_step e text file_name (AwaitReadFile user docId [] matches) w =
     scan_next_doc user docId file_name [] (matches, w)"
| "scan_step e text file_name (AwaitReadFile user docId (doc # docs) matches) w =
     scan_next_doc user docId file_name docs (compareDoc e text file_name doc (matches, w))"
| "scan_step e text file_name (Finished r) w = (Finished r, w)"

fun scan_steps ::
  "nat \<Rightarrow> env \<Rightarrow> string \<Rightarrow> string \<Rightarrow> scan_pc \<times> world \<Rightarrow> scan_pc \<times> world" where
  "scan_steps 0 e text file_name st = st"
| "scan_steps (Suc n) e text file_name (pc, w) =
     scan_steps n e text file_name (scan_step e text file_name pc w)"

record scan_task =
  task_env :: env
  task_text :: string
  task_fileName :: string
  task_pc :: scan_pc

definition new_task :: "env \<Rightarrow> session_user option \<Rightarrow> string \<Rightarrow> string \<Rightarrow> scan_task" where
  "new_task e session text file_name =
     \<lparr>task_env = e, task_text = text, task_fileName = file_name,
      task_pc = scan_start session text file_name\<rparr>"

definition step_task :: "scan_task \<Rightarrow> world \<Rightarrow> scan_task \<times> world" where
  "step_task t w =
     (case scan_step (task_env t) (task_text t) (task_fileName t) (task_pc t) w of
        (pc, w') \<Rightarrow> (t\<lparr>task_pc := pc\<rparr>, w'))"

text \<open>
  A schedule is the order in which the event loop resumes the requests in flight: each
  entry is the index of the request whose awaited operation completes next.
\<close>

fun run_schedule :: "nat list \<Rightarrow> scan_task list \<times> world \<Rightarrow> scan_task list \<times> world" where
  "run_schedule [] st = st"
| "run_schedule (i # sched) st =
     (if i < length (fst st)
      then (case step_task (fst st ! i) (snd st) of
              (t, w') \<Rightarrow> run_schedule sched ((fst st)[i := t], w'))
      else run_schedule sched st)"

section \<open>What the comparison is expected to report\<close>

text \<open>
  These definitions follow the spec's words, not the loop: the score of a stored
  document is the similarity of the new text and the document's body, when the body
  can be read; a document is a match when its score is strictly greater than 0.6; and
  a match is reported under the document's display name with its percentage. The body
  of a document is the file its stored name resolves to in the given state.
\<close>

definition similarity_of :: "env \<Rightarrow> world \<Rightarrow> string \<Rightarrow> document_row \<Rightarrow> real option" where
  "similarity_of e w text doc = map_option (calculateSimilarity text) (readFile e w (filePath doc))"

definition is_match :: "env \<Rightarrow> world \<Rightarrow> string \<Rightarrow> document_row \<Rightarrow> bool" where
  "is_match e w text doc =
     (case similarity_of e w text doc of None \<Rightarrow> False | Some s \<Rightarrow> s > 0.6)"

definition reported :: "env \<Rightarrow> world \<Rightarrow> string \<Rightarrow> document_row \<Rightarrow> match" where
  "reported e w text doc =
     \<lparr>match_fileName = fileName doc,
      match_similarity = toFixed2 e (the (similarity_of e w text doc) * 100) @ ''%''\<rparr>"

definition expected_matches :: "env \<Rightarrow> world \<Rightarrow> string \<Rightarrow> document_row list \<Rightarrow> match list" where
  "expected_matches e w text docs = map (reported e w text) (filter (is_match e w text) docs)"

definition compare_event :: "env \<Rightarrow> world \<Rightarrow> string \<Rightarrow> string \<Rightarrow> document_row \<Rightarrow> log_event" where
  "compare_event e w text file_name doc =
     (case similarity_of e w text doc of
        None \<Rightarrow> LogReadError (filePath doc)
      | Some s \<Rightarrow> LogComparing file_name (fileName doc) s)"

text \<open>The state in which the comparison reads: the new text is in its file.\<close>

definition written :: "env \<Rightarrow> string \<Rightarrow> string \<Rightarrow> world \<Rightarrow> world" where
  "written e text file_name w =
     w\<lparr>files := (files w)(path_join (uploadDir e) (savedFileName_of (now e) file_name) \<mapsto> text)\<rparr>"

text \<open>The state after a scan that passes every check and meets no rejected operation.\<close>

definition scan_completed_world ::
  "env \<Rightarrow> nat \<Rightarrow> string \<Rightarrow> string \<Rightarrow> world \<Rightarrow> world" where
  "scan_completed_world e sid text file_name w =
     (let k = savedFileName_of (now e) file_name;
          docs = listExcept k (documents w);
          wf = written e text file_name w
      in w\<lparr>users := update_credits (\<lambda>c. c - 1) sid (users w),
           files := files wf,
           documents := documents w @
             [\<lparr>document_id = next_id (map document_id (documents w)), userId = sid,
               filePath = k, fileName = file_name\<rparr>],
           console := console w @ map (compare_event e wf text file_name) docs
                      @ [LogMatches (expected_matches e wf text docs)]\<rparr>)"

definition readable :: "env \<Rightarrow> world \<Rightarrow> document_row \<Rightarrow> bool" where
  "readable e w doc = (readFile e w (filePath doc) \<noteq> None)"

section \<open>Example data\<close>

text \<open>
  The platform of the examples. \<open>two_decimals\<close> prints a number rounded to two decimals;
  at the whole percentages of the examples (61 and 100) that is what \<open>toFixed(2)\<close>
  prints. The one string the examples send as an amount is \<open>-25abc\<close>: JavaScript
  converts it to \<open>NaN\<close>, so \<open>'-25abc' < 1\<close> is false; it is not a numeric literal, so the
  column keeps the text; and SQLite reads -25 from its front.
\<close>

definition two_decimals :: "real \<Rightarrow> string" where
  "two_decimals x =
     (let n = nat \<lfloor>\<bar>x\<bar> * 100 + 1 / 2\<rfloor>
      in (if x < 0 then ''-'' else []) @ decimal (n div 100) @ ''.''
           @ [digitChar (n div 10 mod 10), digitChar (n mod 10)])"

definition quiet :: "nat \<Rightarrow> env" where
  "quiet t = \<lparr>now = t, fails = (\<lambda>op. False), readFails = (\<lambda>p. False),
              uploadDir = [''srv'', ''uploads''],
              toFixed2 = two_decimals,
              lessThanOne = (\<lambda>s. False),
              integerAffinity = Text,
              sqliteNumeric = (\<lambda>s. if s = ''-25abc'' then - 25 else 0)\<rparr>"

definition upload :: "string \<Rightarrow> string list" where
  "upload name = [''srv'', ''uploads'', name]"

definition member :: "nat \<Rightarrow> role \<Rightarrow> int \<Rightarrow> user_row" where
  "member i r c = \<lparr>user_id = i, username = ''u'' @ decimal i, email = ''u'' @ decimal i @ ''@example.com'',
                   password = ''hash'', role = r, credits = c\<rparr>"

definition alice :: session_user where
  "alice = \<lparr>session_id = 7, session_role = User\<rparr>"

definition root :: session_user where
  "root = \<lparr>session_id = 8, session_role = Admin\<rparr>"

definition stored :: "nat \<Rightarrow> string \<Rightarrow> string \<Rightarrow> document_row" where
  "stored i path name = \<lparr>document_id = i, userId = 7, filePath = path, fileName = name\<rparr>"

definition threshold_world :: world where
  "threshold_world =
     \<lparr>users = [member 7 User 5],
      credit_requests = [],
      documents = [stored 2 ''2_sixty'' ''sixty'', stored 3 ''3_sixtyone'' ''sixtyone''],
      files = [upload ''2_sixty'' \<mapsto> replicate 60 CHR ''a'',
               upload ''3_sixtyone'' \<mapsto> replicate 61 CHR ''a''],
      console = []\<rparr>"

definition corpus_world :: world where
  "corpus_world =
     \<lparr>users = [member 7 User 5],
      credit_requests = [],
      documents = [stored 2 ''2_lost'' ''lost'', stored 3 ''3_same'' ''same''],
      files = [upload ''2_lost'' \<mapsto> ''hello'', upload ''3_same'' \<mapsto> ''hello''],
      console = []\<rparr>"

definition broke_world :: world where
  "broke_world = corpus_world\<lparr>users := [member 7 User 0]\<rparr>"

definition write_fails :: env where
  "write_fails = (quiet 1000)\<lparr>fails := (\<lambda>op. op = Scan_WriteFile)\<rparr>"

definition lost_unreadable :: env where
  "lost_unreadable = (quiet 1000)\<lparr>readFails := (\<lambda>p. p = ''2_lost'')\<rparr>"

definition collision_world :: world where
  "collision_world =
     \<lparr>users = [member 7 User 5],
      credit_requests = [],
      documents = [stored 2 ''1000_new'' ''new''],
      files = [upload ''1000_new'' \<mapsto> ''first''],
      console = []\<rparr>"

text \<open>
  Two names that resolve to one file: \<open>1000_x/../y\<close> and \<open>1001_z/../y\<close> are both the file
  \<open>y\<close> of the upload directory. \<open>aliased_world\<close> is the state after a first scan stored
  the text \<open>first\<close> under the first name.
\<close>

definition aliased_world :: world where
  "aliased_world =
     \<lparr>users = [member 7 User 5],
      credit_requests = [],
      documents = [stored 2 ''1000_x/../y'' ''x/../y''],
      files = [upload ''y'' \<mapsto> ''first''],
      console = []\<rparr>"

definition grant_world :: world where
  "grant_world =
     \<lparr>users = [member 7 User 20, member 8 Admin 9999],
      credit_requests = [\<lparr>request_id = 4, request_userId = 7, amount = Number 5, status = Pending\<rparr>],
      documents = [],
      files = Map.empty,
      console = []\<rparr>"

definition one_credit_world :: world where
  "one_credit_world =
     \<lparr>users = [member 7 User 1], credit_requests = [], documents = [],
      files = Map.empty, console = []\<rparr>"

definition racing_scans :: "scan_task list" where
  "racing_scans = [new_task (quiet 1000) (Some alice) ''hello'' ''a.txt'',
                   new_task (quiet 1001) (Some alice) ''hello'' ''b.txt'']"

definition two_scans :: "operation list" where
  "two_scans = [Scan (quiet 1000) (Some alice) ''hello'' ''a.txt'',
                Scan (quiet 1001) (Some alice) ''hello'' ''b.txt'']"

text \<open>
  A registration, a credit request whose amount is the string \<open>-25abc\<close>, and its approval
  by the administrator, on a fresh database.
\<close>

definition bob :: session_user where
  "bob = \<lparr>session_id = 1, session_role = User\<rparr>"

definition registered :: "operation list" where
  "registered = [Register (quiet 1) ''bob'' ''bob@example.com'' ''secret'' ''hash'']"

definition requested :: "operation list" where
  "requested = registered @ [RequestCredits (quiet 2) (Some bob) (JString ''-25abc'')]"

definition text_amount_day :: "operation list" where
  "text_amount_day = requested @ [Approve (quiet 3) (Some root) 1]"

section \<open>Properties of the similarity metric\<close>

lemma levenshtein_get_le_max:
  "levenshtein_get str1 str2 \<le> max (length str1) (length str2)"
  by (induction str1 str2 rule: levenshtein_get.induct) auto

lemma levenshtein_get_kitten_sitting:
  "levenshtein_get ''kitten'' ''sitting'' = 3"
  by simp

lemma levenshtein_get_Nil2: "levenshtein_get str1 [] = length str1"
  by (cases str1) simp_all

lemma levenshtein_get_ge_diff: "length str1 - length str2 \<le> levenshtein_get str1 str2"
  by (induction str1 str2 rule: levenshtein_get.induct) auto

lemma levenshtein_get_append_le: "levenshtein_get (str @ rest) str \<le> length rest"
proof (induction str)
  case Nil
  then show ?case by (simp add: levenshtein_get_Nil2)
next
  case (Cons c str)
  then show ?case by (simp add: min_le_iff_disj)
qed

lemma levenshtein_get_append: "levenshtein_get (str @ rest) str = length rest"
  using levenshtein_get_append_le [of str rest] levenshtein_get_ge_diff [of "str @ rest" str]
  by simp

lemma levenshtein_get_same: "levenshtein_get str str = 0"
  using levenshtein_get_append [of str "[]"] by simp

lemma calculateSimilarity_same: "str \<noteq> [] \<Longrightarrow> calculateSimilarity str str = 1"
  by (simp add: calculateSimilarity_def levenshtein_get_same)

lemma calculateSimilarity_replicate:
  assumes "0 < n" "n \<le> m"
  shows "calculateSimilarity (replicate m c) (replicate n c) = 1 - real (m - n) / real m"
proof -
  have "replicate m c = replicate n c @ replicate (m - n) c"
    using assms by (simp add: replicate_add [symmetric])
  then have "levenshtein_get (replicate m c) (replicate n c) = m - n"
    using levenshtein_get_append [of "replicate n c" "replicate (m - n) c"] by simp
  then show ?thesis
    using assms by (simp add: calculateSimilarity_def Let_def max_def)
qed

lemma similarity_sixty: "calculateSimilarity (replicate 100 CHR ''a'') (replicate 60 CHR ''a'') = 0.6"
  using calculateSimilarity_replicate [of 60 100 "CHR ''a''"] by simp

lemma similarity_sixtyone: "calculateSimilarity (replicate 100 CHR ''a'') (replicate 61 CHR ''a'') = 0.61"
  using calculateSimilarity_replicate [of 61 100 "CHR ''a''"] by simp

text \<open>
  The recurrence computes the least number of single-character edits, so it is the
  Levenshtein distance.
\<close>

lemma edits_insert_all: "edits [] str2 (length str2)"
  by (induction str2) (auto intro: edits.intros)

lemma edits_delete_all: "edits str1 [] (length str1)"
  by (induction str1) (auto intro: edits.intros)

lemma edits_levenshtein_get: "edits str1 str2 (levenshtein_get str1 str2)"
proof (induction str1 str2 rule: levenshtein_get.induct)
  case (1 str2)
  then show ?case by (simp add: edits_insert_all)
next
  case (2 c str1)
  then show ?case using edits_delete_all [of "c # str1"] by simp
next
  case (3 c str1 d str2)
  let ?del = "levenshtein_get str1 (d # str2) + 1"
  let ?ins = "levenshtein_get (c # str1) str2 + 1"
  let ?sub = "levenshtein_get str1 str2 + (if c = d then 0 else 1)"
  have del: "edits (c # str1) (d # str2) ?del"
    using "3.IH"(1) by (auto intro: edits.delete)
  have ins: "edits (c # str1) (d # str2) ?ins"
    using "3.IH"(2) by (auto intro: edits.insert)
  have sub: "edits (c # str1) (d # str2) ?sub"
    using "3.IH"(3) by (auto intro: edits.keep edits.substitute)
  have "levenshtein_get (c # str1) (d # str2) \<in> {?del, ?ins, ?sub}"
    by (simp add: min_def)
  then show ?case
    using del ins sub by auto
qed

lemma levenshtein_get_delete: "levenshtein_get (c # str1) str2 \<le> Suc (levenshtein_get str1 str2)"
  by (cases str2) (simp_all add: levenshtein_get_Nil2)

lemma levenshtein_get_insert: "levenshtein_get str1 (d # str2) \<le> Suc (levenshtein_get str1 str2)"
  by (cases str1) simp_all

lemma levenshtein_get_least: "edits str1 str2 n \<Longrightarrow> levenshtein_get str1 str2 \<le> n"
proof (induction rule: edits.induct)
  case nothing
  then show ?case by simp
next
  case (keep str1 str2 n c)
  then show ?case by (simp add: min_le_iff_disj)
next
  case (delete str1 str2 n c)
  then show ?case using levenshtein_get_delete [of c str1 str2] by simp
next
  case (insert str1 str2 n d)
  then show ?case using levenshtein_get_insert [of str1 d str2] by simp
next
  case (substitute str1 str2 n c d)
  then show ?case by (simp add: min_le_iff_disj)
qed

lemma levenshtein_get_is_edit_distance:
  "levenshtein_get str1 str2 = (LEAST n. edits str1 str2 n)"
  by (rule Least_equality [symmetric]) (simp_all add: edits_levenshtein_get levenshtein_get_least)

text \<open>
  C3. For non-empty texts the similarity is one minus the Levenshtein distance divided
  by the length of the longer text, it lies between 0 and 1, and for "kitten" and
  "sitting" it is \<open>1 - 3/7\<close>.
\<close>

theorem calculateSimilarity_normalized_distance:
  "(text1 \<noteq> [] \<and> text2 \<noteq> [] \<longrightarrow>
      calculateSimilarity text1 text2 =
        1 - real (levenshtein_get text1 text2) / real (max (length text1) (length text2)))
   \<and> 0 \<le> calculateSimilarity text1 text2
   \<and> calculateSimilarity text1 text2 \<le> 1
   \<and> calculateSimilarity ''kitten'' ''sitting'' = 1 - 3 / 7"
proof -
  let ?m = "max (length text1) (length text2)"
  let ?d = "levenshtein_get text1 text2"
  have eq: "calculateSimilarity text1 text2 = 1 - real ?d / real ?m"
    if "text1 \<noteq> []" "text2 \<noteq> []"
    using that by (simp add: calculateSimilarity_def Let_def)
  have range: "0 \<le> calculateSimilarity text1 text2 \<and> calculateSimilarity text1 text2 \<le> 1"
  proof (cases "text1 = [] \<or> text2 = []")
    case True
    then show ?thesis by (auto simp add: calculateSimilarity_def)
  next
    case False
    then have pos: "0 < real ?m"
      by (simp add: max_def)
    have "real ?d \<le> real ?m"
      using levenshtein_get_le_max [of text1 text2] by (simp only: of_nat_le_iff)
    then have frac: "real ?d / real ?m \<le> 1"
      using pos by (simp add: divide_le_eq)
    have frac0: "0 \<le> real ?d / real ?m"
      by simp
    show ?thesis using False eq frac frac0 by simp
  qed
  have kitten: "calculateSimilarity ''kitten'' ''sitting'' = 1 - 3 / 7"
    by (simp add: calculateSimilarity_def Let_def levenshtein_get_kitten_sitting
          del: levenshtein_get.simps)
  show ?thesis
    using eq range kitten by blast
qed

theorem calculateSimilarity_normalized_distance_witness:
  "''kitten'' \<noteq> [] \<and> ''sitting'' \<noteq> []
   \<and> calculateSimilarity ''kitten'' ''sitting'' = 4 / 7
   \<and> levenshtein_get ''kitten'' ''sitting'' = 3
   \<and> max (length ''kitten'') (length ''sitting'') = 7"
  using calculateSimilarity_normalized_distance [of "''kitten''" "''sitting''"]
  by (simp add: levenshtein_get_kitten_sitting del: levenshtein_get.simps)

text \<open>
  C4. If either text has length zero the similarity is 0, also when both are empty.
\<close>

theorem calculateSimilarity_empty:
  "text1 = [] \<or> text2 = [] \<Longrightarrow> calculateSimilarity text1 text2 = 0"
  by (auto simp: calculateSimilarity_def)

theorem calculateSimilarity_empty_witness:
  "calculateSimilarity ([] :: char list) ([] :: char list) = 0
   \<and> calculateSimilarity [] ''x'' = 0
   \<and> calculateSimilarity ''x'' [] = 0"
  using calculateSimilarity_empty [of "[] :: char list" "[] :: char list"]
        calculateSimilarity_empty [of "[] :: char list" "''x''"]
        calculateSimilarity_empty [of "''x''" "[] :: char list"]
  by simp

section \<open>The handler and its steps\<close>

text \<open>
  Running one request alone, one awaited operation after the other, ends with the
  response and the state of \<open>post_scan\<close>: five operations up to the listing of the
  documents, then one read per listed document.
\<close>

lemma scan_steps_Finished:
  "scan_steps n e text file_name (Finished r, w) = (Finished r, w)"
  by (induction n) simp_all

lemma scan_steps_add:
  "scan_steps (m + n) e text file_name st =
     scan_steps n e text file_name (scan_steps m e text file_name st)"
  by (induction m arbitrary: st) (simp, case_tac st, simp)

lemma scan_steps_loop:
  "scan_steps (length docs) e text file_name
       (scan_next_doc user docId file_name docs st)
     = (Finished (fst (scan_respond docId user file_name (compareDocs e text file_name docs st))),
        snd (scan_respond docId user file_name (compareDocs e text file_name docs st)))"
proof (induction docs arbitrary: st)
  case Nil
  then show ?case by (simp add: scan_next_doc_def)
next
  case (Cons doc docs)
  have "scan_steps (length (doc # docs)) e text file_name
          (scan_next_doc user docId file_name (doc # docs) st)
        = scan_steps (length docs) e text file_name
          (scan_next_doc user docId file_name docs (compareDoc e text file_name doc st))"
    by (cases st) (simp add: scan_next_doc_def)
  then show ?case using Cons.IH by simp
qed

lemma scan_steps_failed:
  "scan_steps n e text file_name (scan_failed w) = (Finished (fst (internal_error w)), snd (internal_error w))"
  by (simp add: scan_failed_def scan_steps_Finished)

lemma listExcept_snoc_self:
  "listExcept k (docs @ [d\<lparr>filePath := k\<rparr>]) = listExcept k docs"
  by (simp add: listExcept_def)

lemma length_listExcept: "length (listExcept k docs) \<le> length docs"
  by (simp add: listExcept_def)

lemma scan_steps_loop_more:
  assumes "length docs \<le> n"
  shows "scan_steps n e text file_name (scan_next_doc user docId file_name docs st)
     = (Finished (fst (scan_respond docId user file_name (compareDocs e text file_name docs st))),
        snd (scan_respond docId user file_name (compareDocs e text file_name docs st)))"
proof -
  have "n = length docs + (n - length docs)"
    using assms by simp
  then have "scan_steps n e text file_name (scan_next_doc user docId file_name docs st)
      = scan_steps (n - length docs) e text file_name
          (scan_steps (length docs) e text file_name
             (scan_next_doc user docId file_name docs st))"
    using scan_steps_add [of "length docs" "n - length docs"] by metis
  then show ?thesis
    by (simp add: scan_steps_loop scan_steps_Finished)
qed

lemma scan_steps_post_scan:
  "scan_steps (5 + length (documents w)) e text file_name
       (scan_start session text file_name, w)
     = (Finished (fst (post_scan e session text file_name w)),
        snd (post_scan e session text file_name w))"
proof (cases session)
  case None
  then show ?thesis
    by (simp add: scan_start_def post_scan_def scan_steps_Finished)
next
  case (Some su)
  show ?thesis
  proof (cases "text = [] \<or> file_name = []")
    case True
    then show ?thesis using Some
      by (auto simp add: scan_start_def post_scan_def scan_steps_Finished)
  next
    case False
    have five: "5 + length (documents w) = Suc (Suc (Suc (Suc (Suc (length (documents w))))))"
      by simp
    show ?thesis using Some False
      unfolding five
      by (auto simp add: scan_start_def post_scan_def scan_steps_Finished scan_failed_def
            Let_def listExcept_def scan_steps_loop_more
          split: option.splits)
  qed
qed

section \<open>The comparison loop\<close>

text \<open>
  The loop appends to \<open>matches\<close> what the expected report says, document by document,
  and prints one console line per document.
\<close>

lemma similarity_of_console [simp]:
  "similarity_of e (w\<lparr>console := c\<rparr>) text doc = similarity_of e w text doc"
  by (simp add: similarity_of_def readFile_def)

lemma is_match_console [simp]:
  "is_match e (w\<lparr>console := c\<rparr>) text = is_match e w text"
  by (rule ext) (simp add: is_match_def)

lemma reported_console [simp]:
  "reported e (w\<lparr>console := c\<rparr>) text = reported e w text"
  by (rule ext) (simp add: reported_def)

lemma compare_event_console [simp]:
  "compare_event e (w\<lparr>console := c\<rparr>) text file_name = compare_event e w text file_name"
  by (rule ext) (simp add: compare_event_def)

lemma compareDoc_eq:
  "compareDoc e text file_name doc (matches, w) =
     (matches @ expected_matches e w text [doc],
      w\<lparr>console := console w @ [compare_event e w text file_name doc]\<rparr>)"
  by (simp add: compareDoc_def expected_matches_def is_match_def reported_def
        compare_event_def similarity_of_def console_log_def Let_def
      split: option.splits)

lemma expected_matches_Cons:
  "expected_matches e w text (doc # docs) =
     expected_matches e w text [doc] @ expected_matches e w text docs"
  by (simp add: expected_matches_def)

lemma compareDocs_eq:
  "compareDocs e text file_name docs (matches, w) =
     (matches @ expected_matches e w text docs,
      w\<lparr>console := console w @ map (compare_event e w text file_name) docs\<rparr>)"
proof (induction docs arbitrary: matches w)
  case Nil
  then show ?case by (simp add: expected_matches_def)
next
  case (Cons doc docs)
  have "compareDocs e text file_name (doc # docs) (matches, w) =
        compareDocs e text file_name docs
          (matches @ expected_matches e w text [doc],
           w\<lparr>console := console w @ [compare_event e w text file_name doc]\<rparr>)"
    by (simp add: compareDoc_eq)
  also have "\<dots> = ((matches @ expected_matches e w text [doc]) @ expected_matches e w text docs,
       w\<lparr>console := (console w @ [compare_event e w text file_name doc])
                      @ map (compare_event e w text file_name) docs\<rparr>)"
    by (simp add: Cons.IH expected_matches_def)
  finally show ?case
    by (simp add: expected_matches_Cons [of _ _ _ doc docs])
qed

text \<open>
  Scores, matches and console lines depend on the state only through its files.
\<close>

lemma similarity_of_files:
  "files w1 = files w2 \<Longrightarrow> similarity_of e w1 text doc = similarity_of e w2 text doc"
  by (simp add: similarity_of_def readFile_def)

lemma readable_files:
  "files w1 = files w2 \<Longrightarrow> readable e w1 doc = readable e w2 doc"
  by (simp add: readable_def readFile_def)

lemma is_match_files:
  "files w1 = files w2 \<Longrightarrow> is_match e w1 text = is_match e w2 text"
  by (rule ext) (simp add: is_match_def similarity_of_files [of w1 w2])

lemma reported_files:
  "files w1 = files w2 \<Longrightarrow> reported e w1 text = reported e w2 text"
  by (rule ext) (simp add: reported_def similarity_of_files [of w1 w2])

lemma compare_event_files:
  "files w1 = files w2 \<Longrightarrow> compare_event e w1 text file_name = compare_event e w2 text file_name"
  by (rule ext) (simp add: compare_event_def similarity_of_files [of w1 w2])

lemma expected_matches_files:
  "files w1 = files w2 \<Longrightarrow> expected_matches e w1 text = expected_matches e w2 text"
  by (rule ext) (simp add: expected_matches_def is_match_files [of w1 w2] reported_files [of w1 w2])

lemma files_scan_completed_world:
  "files (scan_completed_world e sid text file_name w) = files (written e text file_name w)"
  by (simp add: scan_completed_world_def Let_def)

lemma listExcept_keys: "\<forall>doc \<in> set (listExcept k docs). filePath doc \<noteq> k"
  by (simp add: listExcept_def)

lemma listExcept_idem: "listExcept k (listExcept k docs) = listExcept k docs"
  by (simp add: listExcept_def)

lemma count_list_listExcept:
  "count_list (listExcept k docs) doc = (if filePath doc = k then 0 else count_list docs doc)"
  by (induction docs) (auto simp add: listExcept_def)

lemma post_scan_completed:
  assumes "session = Some su" "text \<noteq> []" "file_name \<noteq> []"
    and "select_user (session_id su) (users w) = Some user" "1 \<le> credits user"
    and "\<not> fails e Scan_SelectCredits" "\<not> fails e Scan_UpdateCredits"
        "\<not> fails e Scan_WriteFile" "\<not> fails e Scan_InsertDocument"
        "\<not> fails e Scan_SelectDocuments"
  shows "post_scan e session text file_name w =
     (ScanJson (now e) (credits user - 1) file_name
        (expected_matches e (written e text file_name w) text
           (listExcept (savedFileName_of (now e) file_name) (documents w))),
      scan_completed_world e (session_id su) text file_name w)"
proof -
  let ?k = "savedFileName_of (now e) file_name"
  let ?docs = "listExcept ?k (documents w)"
  let ?wf = "written e text file_name w"
  let ?row = "\<lparr>document_id = next_id (map document_id (documents w)), userId = session_id su,
               filePath = ?k, fileName = file_name\<rparr>"
  let ?w3 = "w\<lparr>users := update_credits (\<lambda>c. c - 1) (session_id su) (users w),
               files := (files w)(path_join (uploadDir e) ?k \<mapsto> text),
               documents := documents w @ [?row]\<rparr>"
  have docs: "listExcept ?k (documents w @ [?row]) = ?docs"
    by (simp add: listExcept_def)
  have same: "files ?w3 = files ?wf"
    by (simp add: written_def)
  have ms: "expected_matches e ?w3 text = expected_matches e ?wf text"
    using same by (rule expected_matches_files)
  have evs: "compare_event e ?w3 text file_name = compare_event e ?wf text file_name"
    using same by (rule compare_event_files)
  have "post_scan e session text file_name w =
        scan_respond (now e) user file_name (compareDocs e text file_name ?docs ([], ?w3))"
    using assms docs by (simp add: post_scan_def Let_def)
  also have "\<dots> = (ScanJson (now e) (credits user - 1) file_name (expected_matches e ?wf text ?docs),
        ?w3\<lparr>console := console w @ map (compare_event e ?wf text file_name) ?docs
                      @ [LogMatches (expected_matches e ?wf text ?docs)]\<rparr>)"
    by (simp add: compareDocs_eq scan_respond_def console_log_def ms evs)
  finally show ?thesis
    by (simp add: scan_completed_world_def Let_def written_def)
qed

lemma post_scan_ScanJson_cases:
  assumes "post_scan e session text file_name w = (ScanJson docId left name matches, w')"
  obtains su user where "session = Some su" "text \<noteq> []" "file_name \<noteq> []"
    "select_user (session_id su) (users w) = Some user" "1 \<le> credits user"
    "\<not> fails e Scan_SelectCredits" "\<not> fails e Scan_UpdateCredits"
    "\<not> fails e Scan_WriteFile" "\<not> fails e Scan_InsertDocument"
    "\<not> fails e Scan_SelectDocuments"
  using assms
  by (auto simp add: post_scan_def internal_error_def Let_def
        split: option.splits if_splits)

lemma post_scan_rejected:
  assumes "text \<noteq> []" "file_name \<noteq> []" "\<not> fails e Scan_SelectCredits"
    and "select_user (session_id su) (users w) = Some user" "credits user < 1"
  shows "post_scan e (Some su) text file_name w = (Json 403 ''Insufficient credits! Please request.'', w)"
  using assms by (simp add: post_scan_def)

lemma documents_scan_completed_world:
  "documents (scan_completed_world e sid text file_name w) =
     documents w @ [\<lparr>document_id = next_id (map document_id (documents w)), userId = sid,
                     filePath = savedFileName_of (now e) file_name, fileName = file_name\<rparr>]"
  by (simp add: scan_completed_world_def Let_def)

lemma listExcept_scan_completed_world:
  "listExcept (savedFileName_of (now e) file_name)
       (documents (scan_completed_world e sid text file_name w))
     = listExcept (savedFileName_of (now e) file_name) (documents w)"
  by (simp add: documents_scan_completed_world listExcept_def)

section \<open>Evaluating the examples\<close>

lemma split_path_plain: "CHR ''/'' \<notin> set name \<Longrightarrow> split_path name = [name]"
  by (induction name) auto

lemma path_join_plain:
  assumes "CHR ''/'' \<notin> set name" "name \<noteq> []" "name \<noteq> ''.''" "name \<noteq> ''..''"
  shows "path_join dir name = dir @ [name]"
  using assms by (simp add: path_join_def split_path_plain)

lemma savedFileName_1000_new: "savedFileName_of 1000 ''new'' = ''1000_new''"
  by (simp add: savedFileName_of_def decimal.simps digitChar_def)

lemma savedFileName_now:
  "savedFileName_of (now lost_unreadable) ''new'' = ''1000_new''"
  "savedFileName_of (now (quiet 1000)) ''new'' = ''1000_new''"
  by (simp_all add: lost_unreadable_def quiet_def savedFileName_1000_new)

lemma upload_path:
  assumes "CHR ''/'' \<notin> set name" "name \<noteq> []" "name \<noteq> ''.''" "name \<noteq> ''..''"
  shows "path_join (uploadDir (quiet t)) name = upload name"
    and "path_join (uploadDir lost_unreadable) name = upload name"
    and "path_join (uploadDir write_fails) name = upload name"
  using assms
  by (simp_all add: path_join_plain quiet_def lost_unreadable_def write_fails_def upload_def)

lemma two_decimals_61: "two_decimals 61 = ''61.00''"
  by (simp add: two_decimals_def decimal.simps digitChar_def Let_def)

lemma two_decimals_100: "two_decimals 100 = ''100.00''"
  by (simp add: two_decimals_def decimal.simps digitChar_def Let_def)

lemma toFixed2_quiet: "toFixed2 (quiet t) = two_decimals" "toFixed2 lost_unreadable = two_decimals"
  by (simp_all add: quiet_def lost_unreadable_def)

section \<open>The match threshold\<close>

text \<open>
  C5. In the match list of a scan, an existing document is reported exactly when its
  body can be read and its similarity to the new text is strictly greater than 0.6:
  the list is the listed documents filtered by that test, in order. A score of exactly
  0.6 is left out, a score of 0.61 is kept. The bodies are the files as the loop finds
  them, that is, after the new text has been written to its own file.
\<close>

theorem post_scan_matches_threshold:
  assumes "post_scan e session text file_name w = (ScanJson docId left name matches, w')"
  shows "matches =
           map (reported e w' text)
             (filter (is_match e w' text)
                (listExcept (savedFileName_of (now e) file_name) (documents w')))
         \<and> listExcept (savedFileName_of (now e) file_name) (documents w')
             = listExcept (savedFileName_of (now e) file_name) (documents w)
         \<and> files w' = (files w)(path_join (uploadDir e) (savedFileName_of (now e) file_name) \<mapsto> text)
         \<and> (\<forall>doc. is_match e w' text doc
                \<longleftrightarrow> (\<exists>s. similarity_of e w' text doc = Some s \<and> s > 0.6))
         \<and> (\<forall>doc. similarity_of e w' text doc = Some 0.6 \<longrightarrow> \<not> is_match e w' text doc)
         \<and> (\<forall>doc. similarity_of e w' text doc = Some 0.61 \<longrightarrow> is_match e w' text doc)"
proof -
  let ?k = "savedFileName_of (now e) file_name"
  from assms obtain su user where h: "session = Some su" "text \<noteq> []" "file_name \<noteq> []"
    "select_user (session_id su) (users w) = Some user" "1 \<le> credits user"
    "\<not> fails e Scan_SelectCredits" "\<not> fails e Scan_UpdateCredits"
    "\<not> fails e Scan_WriteFile" "\<not> fails e Scan_InsertDocument"
    "\<not> fails e Scan_SelectDocuments"
    by (rule post_scan_ScanJson_cases)
  have res: "matches = expected_matches e (written e text file_name w) text (listExcept ?k (documents w))"
    and w': "w' = scan_completed_world e (session_id su) text file_name w"
    using post_scan_completed [OF h] assms by simp_all
  have same: "files w' = files (written e text file_name w)"
    unfolding w' by (rule files_scan_completed_world)
  have docs: "listExcept ?k (documents w') = listExcept ?k (documents w)"
    unfolding w' by (rule listExcept_scan_completed_world)
  have "matches = expected_matches e w' text (listExcept ?k (documents w'))"
    using res expected_matches_files [OF same, of e "text"] docs by simp
  then have first: "matches = map (reported e w' text)
             (filter (is_match e w' text) (listExcept ?k (documents w')))"
    by (simp add: expected_matches_def)
  have third: "files w' = (files w)(path_join (uploadDir e) ?k \<mapsto> text)"
    using same by (simp add: written_def)
  have fourth: "\<forall>doc. is_match e w' text doc
                \<longleftrightarrow> (\<exists>s. similarity_of e w' text doc = Some s \<and> s > 0.6)"
    by (simp add: is_match_def split: option.splits)
  have fifth: "\<forall>doc. similarity_of e w' text doc = Some 0.6 \<longrightarrow> \<not> is_match e w' text doc"
    by (simp add: is_match_def)
  have sixth: "\<forall>doc. similarity_of e w' text doc = Some 0.61 \<longrightarrow> is_match e w' text doc"
    by (simp add: is_match_def)
  show ?thesis
    using first docs third fourth fifth sixth by blast
qed

lemma threshold_user: "select_user (session_id alice) (users threshold_world) = Some (member 7 User 5)"
  by (simp add: threshold_world_def select_user_def member_def alice_def)

lemma threshold_docs:
  "listExcept ''1000_new'' (documents threshold_world)
     = [stored 2 ''2_sixty'' ''sixty'', stored 3 ''3_sixtyone'' ''sixtyone'']"
  by (simp add: threshold_world_def listExcept_def stored_def)

lemma threshold_s60:
  "similarity_of (quiet 1000) (written (quiet 1000) (replicate 100 CHR ''a'') ''new'' threshold_world)
     (replicate 100 CHR ''a'') (stored 2 ''2_sixty'' ''sixty'') = Some 0.6"
  by (simp add: similarity_of_def readFile_def written_def savedFileName_now upload_path
        similarity_sixty stored_def)
     (simp add: quiet_def threshold_world_def upload_def similarity_sixty)

lemma threshold_s61:
  "similarity_of (quiet 1000) (written (quiet 1000) (replicate 100 CHR ''a'') ''new'' threshold_world)
     (replicate 100 CHR ''a'') (stored 3 ''3_sixtyone'' ''sixtyone'') = Some 0.61"
  by (simp add: similarity_of_def readFile_def written_def savedFileName_now upload_path
        similarity_sixtyone stored_def)
     (simp add: quiet_def threshold_world_def upload_def similarity_sixtyone)

lemma threshold_expected:
  "expected_matches (quiet 1000) (written (quiet 1000) (replicate 100 CHR ''a'') ''new'' threshold_world)
       (replicate 100 CHR ''a'')
       [stored 2 ''2_sixty'' ''sixty'', stored 3 ''3_sixtyone'' ''sixtyone'']
     = [\<lparr>match_fileName = ''sixtyone'', match_similarity = ''61.00%''\<rparr>]"
  by (simp add: expected_matches_def is_match_def reported_def threshold_s60 threshold_s61
        toFixed2_quiet two_decimals_61)
     (simp add: stored_def)

lemma threshold_scan:
  "post_scan (quiet 1000) (Some alice) (replicate 100 CHR ''a'') ''new'' threshold_world
     = (ScanJson 1000 4 ''new'' [\<lparr>match_fileName = ''sixtyone'', match_similarity = ''61.00%''\<rparr>],
        scan_completed_world (quiet 1000) (session_id alice) (replicate 100 CHR ''a'') ''new''
          threshold_world)"
proof -
  have "post_scan (quiet 1000) (Some alice) (replicate 100 CHR ''a'') ''new'' threshold_world =
     (ScanJson (now (quiet 1000)) (credits (member 7 User 5) - 1) ''new''
        (expected_matches (quiet 1000)
           (written (quiet 1000) (replicate 100 CHR ''a'') ''new'' threshold_world)
           (replicate 100 CHR ''a'')
           (listExcept (savedFileName_of (now (quiet 1000)) ''new'') (documents threshold_world))),
      scan_completed_world (quiet 1000) (session_id alice) (replicate 100 CHR ''a'') ''new'' threshold_world)"
    by (rule post_scan_completed [OF refl _ _ threshold_user]) (simp_all add: quiet_def member_def)
  then show ?thesis
    unfolding savedFileName_now threshold_docs threshold_expected
    by (simp add: quiet_def member_def)
qed

theorem post_scan_matches_threshold_witness:
  "fst (post_scan (quiet 1000) (Some alice) (replicate 100 CHR ''a'') ''new'' threshold_world)
     = ScanJson 1000 4 ''new'' [\<lparr>match_fileName = ''sixtyone'', match_similarity = ''61.00%''\<rparr>]
   \<and> [\<lparr>match_fileName = ''sixtyone'', match_similarity = ''61.00%''\<rparr>]
     = map (reported (quiet 1000)
              (snd (post_scan (quiet 1000) (Some alice) (replicate 100 CHR ''a'') ''new'' threshold_world))
              (replicate 100 CHR ''a''))
         (filter (is_match (quiet 1000)
              (snd (post_scan (quiet 1000) (Some alice) (replicate 100 CHR ''a'') ''new'' threshold_world))
              (replicate 100 CHR ''a''))
            (listExcept (savedFileName_of (now (quiet 1000)) ''new'')
               (documents (snd (post_scan (quiet 1000) (Some alice) (replicate 100 CHR ''a'') ''new''
                  threshold_world)))))
   \<and> similarity_of (quiet 1000)
        (snd (post_scan (quiet 1000) (Some alice) (replicate 100 CHR ''a'') ''new'' threshold_world))
        (replicate 100 CHR ''a'') (stored 2 ''2_sixty'' ''sixty'') = Some 0.6
   \<and> \<not> is_match (quiet 1000)
        (snd (post_scan (quiet 1000) (Some alice) (replicate 100 CHR ''a'') ''new'' threshold_world))
        (replicate 100 CHR ''a'') (stored 2 ''2_sixty'' ''sixty'')
   \<and> similarity_of (quiet 1000)
        (snd (post_scan (quiet 1000) (Some alice) (replicate 100 CHR ''a'') ''new'' threshold_world))
        (replicate 100 CHR ''a'') (stored 3 ''3_sixtyone'' ''sixtyone'') = Some 0.61
   \<and> is_match (quiet 1000)
        (snd (post_scan (quiet 1000) (Some alice) (replicate 100 CHR ''a'') ''new'' threshold_world))
        (replicate 100 CHR ''a'') (stored 3 ''3_sixtyone'' ''sixtyone'')"
proof -
  let ?t = "replicate 100 CHR ''a''"
  let ?r = "post_scan (quiet 1000) (Some alice) ?t ''new'' threshold_world"
  let ?wf = "written (quiet 1000) ?t ''new'' threshold_world"
  have run: "?r = (ScanJson 1000 4 ''new''
       [\<lparr>match_fileName = ''sixtyone'', match_similarity = ''61.00%''\<rparr>], snd ?r)"
    using threshold_scan by simp
  have one: "fst ?r = ScanJson 1000 4 ''new''
       [\<lparr>match_fileName = ''sixtyone'', match_similarity = ''61.00%''\<rparr>]"
    using threshold_scan by simp
  have same: "files (snd ?r) = files ?wf"
    using threshold_scan by (simp add: files_scan_completed_world)
  have s60: "similarity_of (quiet 1000) (snd ?r) ?t (stored 2 ''2_sixty'' ''sixty'') = Some 0.6"
    using similarity_of_files [OF same] threshold_s60 by simp
  have s61: "similarity_of (quiet 1000) (snd ?r) ?t (stored 3 ''3_sixtyone'' ''sixtyone'') = Some 0.61"
    using similarity_of_files [OF same] threshold_s61 by simp
  note inst = post_scan_matches_threshold [OF run]
  have m60: "\<not> is_match (quiet 1000) (snd ?r) ?t (stored 2 ''2_sixty'' ''sixty'')"
    using inst s60 by blast
  have m61: "is_match (quiet 1000) (snd ?r) ?t (stored 3 ''3_sixtyone'' ''sixtyone'')"
    using inst s61 by blast
  have ms: "[\<lparr>match_fileName = ''sixtyone'', match_similarity = ''61.00%''\<rparr>]
     = map (reported (quiet 1000) (snd ?r) ?t)
         (filter (is_match (quiet 1000) (snd ?r) ?t)
            (listExcept (savedFileName_of (now (quiet 1000)) ''new'') (documents (snd ?r))))"
    using inst by (rule conjunct1)
  show ?thesis
    using one ms s60 m60 s61 m61 by (intro conjI)
qed

text \<open>
  A stored name that resolves to the file of the new submission is scored against the
  new text: after \<open>x/../y\<close> was stored with the text \<open>first\<close>, a scan of the text
  \<open>second\<close> under the name \<open>z/../y\<close> reports \<open>x/../y\<close> at 100.00%.
\<close>

lemma aliased_scan:
  "fst (post_scan (quiet 1001) (Some alice) ''second'' ''z/../y'' aliased_world)
     = ScanJson 1001 4 ''z/../y'' [\<lparr>match_fileName = ''x/../y'', match_similarity = ''100.00%''\<rparr>]"
proof -
  let ?wf = "written (quiet 1001) ''second'' ''z/../y'' aliased_world"
  have user: "select_user (session_id alice) (users aliased_world) = Some (member 7 User 5)"
    by (simp add: aliased_world_def select_user_def member_def alice_def)
  have key: "savedFileName_of (now (quiet 1001)) ''z/../y'' = ''1001_z/../y''"
    by (simp add: savedFileName_of_def decimal.simps digitChar_def quiet_def)
  have docs: "listExcept ''1001_z/../y'' (documents aliased_world) = [stored 2 ''1000_x/../y'' ''x/../y'']"
    by (simp add: aliased_world_def listExcept_def stored_def)
  have new_path: "path_join (uploadDir (quiet 1001)) ''1001_z/../y'' = upload ''y''"
    by (simp add: path_join_def quiet_def upload_def)
  have old_path: "path_join (uploadDir (quiet 1001)) ''1000_x/../y'' = upload ''y''"
    by (simp add: path_join_def quiet_def upload_def)
  have sim: "similarity_of (quiet 1001) ?wf ''second'' (stored 2 ''1000_x/../y'' ''x/../y'') = Some 1"
    by (simp add: similarity_of_def readFile_def written_def key new_path old_path stored_def
          calculateSimilarity_same)
       (simp add: quiet_def)
  have expected: "expected_matches (quiet 1001) ?wf ''second'' [stored 2 ''1000_x/../y'' ''x/../y'']
      = [\<lparr>match_fileName = ''x/../y'', match_similarity = ''100.00%''\<rparr>]"
    by (simp add: expected_matches_def is_match_def reported_def sim toFixed2_quiet two_decimals_100)
       (simp add: stored_def)
  have "post_scan (quiet 1001) (Some alice) ''second'' ''z/../y'' aliased_world =
     (ScanJson (now (quiet 1001)) (credits (member 7 User 5) - 1) ''z/../y''
        (expected_matches (quiet 1001) ?wf ''second''
           (listExcept (savedFileName_of (now (quiet 1001)) ''z/../y'') (documents aliased_world))),
      scan_completed_world (quiet 1001) (session_id alice) ''second'' ''z/../y'' aliased_world)"
    by (rule post_scan_completed [OF refl _ _ user]) (simp_all add: quiet_def member_def)
  then show ?thesis
    unfolding key docs expected by (simp add: quiet_def member_def)
qed

section \<open>Insufficient credit\<close>

text \<open>
  C6. A scan by a logged-in user with a valid body whose balance is below 1 is answered
  403 "Insufficient credits", and nothing else happens: the user table, the documents,
  the stored files and the console (no comparison is logged) are all as before.
\<close>

theorem post_scan_insufficient_credit:
  assumes "session = Some su" "text \<noteq> []" "file_name \<noteq> []"
    and "\<not> fails e Scan_SelectCredits"
    and "select_user (session_id su) (users w) = Some user" "credits user < 1"
  shows "post_scan e session text file_name w =
           (Json 403 ''Insufficient credits! Please request.'', w)"
  using assms by (simp add: post_scan_def)

theorem post_scan_insufficient_credit_witness:
  "select_user (session_id alice) (users broke_world) = Some (member 7 User 0)
   \<and> credits (member 7 User 0) < 1
   \<and> post_scan (quiet 1000) (Some alice) ''hello'' ''new'' broke_world
       = (Json 403 ''Insufficient credits! Please request.'', broke_world)"
proof -
  have user: "select_user (session_id alice) (users broke_world) = Some (member 7 User 0)"
    by (simp add: broke_world_def select_user_def member_def alice_def)
  have low: "credits (member 7 User 0) < 1"
    by (simp add: member_def)
  have "post_scan (quiet 1000) (Some alice) ''hello'' ''new'' broke_world
       = (Json 403 ''Insufficient credits! Please request.'', broke_world)"
    by (rule post_scan_insufficient_credit [OF refl _ _ _ user low]) (simp_all add: quiet_def)
  then show ?thesis
    using user low by simp
qed

section \<open>A storage failure after the deduction\<close>

lemma select_user_update_credits:
  "select_user i (update_credits f i us) =
     map_option (\<lambda>u. u\<lparr>credits := f (credits u)\<rparr>) (select_user i us)"
  by (induction us) (simp_all add: select_user_def update_credits_def)

text \<open>
  C7. When the credit has been deducted and then writing the file (or inserting the
  document row) is rejected, the scan is answered 500, the balance stays decremented
  by one, and no document row is added: nothing is refunded.
\<close>

theorem post_scan_storage_failure:
  assumes "session = Some su" "text \<noteq> []" "file_name \<noteq> []"
    and "select_user (session_id su) (users w) = Some user" "1 \<le> credits user"
    and "\<not> fails e Scan_SelectCredits" "\<not> fails e Scan_UpdateCredits"
    and "fails e Scan_WriteFile \<or> fails e Scan_InsertDocument"
  shows "fst (post_scan e session text file_name w) = Json 500 ''Internal Server Error''
       \<and> users (snd (post_scan e session text file_name w))
           = update_credits (\<lambda>c. c - 1) (session_id su) (users w)
       \<and> map_option credits
           (select_user (session_id su) (users (snd (post_scan e session text file_name w))))
           = Some (credits user - 1)
       \<and> documents (snd (post_scan e session text file_name w)) = documents w"
proof -
  let ?w1 = "w\<lparr>users := update_credits (\<lambda>c. c - 1) (session_id su) (users w)\<rparr>"
  let ?k = "savedFileName_of (now e) file_name"
  have "post_scan e session text file_name w =
          (if fails e Scan_WriteFile then internal_error ?w1
           else internal_error
                  (?w1\<lparr>files := (files ?w1)(path_join (uploadDir e) ?k \<mapsto> text)\<rparr>))"
    using assms by (auto simp add: post_scan_def Let_def)
  then show ?thesis
    using assms(4)
    by (simp add: internal_error_def console_log_def select_user_update_credits)
qed

theorem post_scan_storage_failure_witness:
  "fails write_fails Scan_WriteFile
   \<and> select_user (session_id alice) (users corpus_world) = Some (member 7 User 5)
   \<and> credits (member 7 User 5) - 1 = 4
   \<and> fst (post_scan write_fails (Some alice) ''hello'' ''new'' corpus_world)
          = Json 500 ''Internal Server Error''
   \<and> users (snd (post_scan write_fails (Some alice) ''hello'' ''new'' corpus_world))
           = update_credits (\<lambda>c. c - 1) (session_id alice) (users corpus_world)
   \<and> map_option credits
           (select_user (session_id alice)
              (users (snd (post_scan write_fails (Some alice) ''hello'' ''new'' corpus_world))))
           = Some (credits (member 7 User 5) - 1)
   \<and> documents (snd (post_scan write_fails (Some alice) ''hello'' ''new'' corpus_world))
           = documents corpus_world"
proof -
  have user: "select_user (session_id alice) (users corpus_world) = Some (member 7 User 5)"
    by (simp add: corpus_world_def select_user_def member_def alice_def)
  have enough: "1 \<le> credits (member 7 User 5)"
    by (simp add: member_def)
  have left: "credits (member 7 User 5) - 1 = 4"
    by (simp add: member_def)
  have f: "fails write_fails Scan_WriteFile"
    by (simp add: write_fails_def quiet_def)
  have "fst (post_scan write_fails (Some alice) ''hello'' ''new'' corpus_world)
          = Json 500 ''Internal Server Error''
       \<and> users (snd (post_scan write_fails (Some alice) ''hello'' ''new'' corpus_world))
           = update_credits (\<lambda>c. c - 1) (session_id alice) (users corpus_world)
       \<and> map_option credits
           (select_user (session_id alice)
              (users (snd (post_scan write_fails (Some alice) ''hello'' ''new'' corpus_world))))
           = Some (credits (member 7 User 5) - 1)
       \<and> documents (snd (post_scan write_fails (Some alice) ''hello'' ''new'' corpus_world))
           = documents corpus_world"
    by (rule post_scan_storage_failure [OF refl _ _ user enough])
       (simp_all add: write_fails_def quiet_def)
  then show ?thesis
    using f user left by blast
qed

section \<open>Read failures during the comparison\<close>

lemma expected_matches_readable:
  "expected_matches e w text (filter (readable e w) docs) = expected_matches e w text docs"
proof -
  have "filter (is_match e w text) (filter (readable e w) docs) = filter (is_match e w text) docs"
    by (induction docs)
       (auto simp add: is_match_def readable_def similarity_of_def split: option.splits)
  then show ?thesis
    by (simp add: expected_matches_def)
qed

lemma compare_event_unreadable:
  "\<not> readable e w doc \<Longrightarrow> compare_event e w text file_name doc = LogReadError (filePath doc)"
  by (simp add: compare_event_def similarity_of_def readable_def)

lemma compare_event_readable:
  "readable e w doc \<Longrightarrow>
     \<exists>s. similarity_of e w text doc = Some s
        \<and> compare_event e w text file_name doc = LogComparing file_name (fileName doc) s"
  by (auto simp add: compare_event_def similarity_of_def readable_def)

text \<open>
  C8. Whatever stored files fail to be read, a scan that got as far as the comparison
  is answered 200. Its match list is the expected report over the readable documents
  only; every unreadable document is logged as a read error, every readable one is
  logged with its score; the new document row is stored and the new text is in its
  file, every other file being as before. Readability and scores are those of the
  loop's reads, which follow the write.
\<close>

theorem post_scan_read_failure_skipped:
  assumes "session = Some su" "text \<noteq> []" "file_name \<noteq> []"
    and "select_user (session_id su) (users w) = Some user" "1 \<le> credits user"
    and "\<not> fails e Scan_SelectCredits" "\<not> fails e Scan_UpdateCredits"
        "\<not> fails e Scan_WriteFile" "\<not> fails e Scan_InsertDocument"
        "\<not> fails e Scan_SelectDocuments"
    and "k = savedFileName_of (now e) file_name"
    and "docs = listExcept k (documents w)"
    and "r = post_scan e session text file_name w"
  shows "fst r = ScanJson (now e) (credits user - 1) file_name
                   (expected_matches e (snd r) text (filter (readable e (snd r)) docs))
       \<and> (\<forall>doc \<in> set docs. \<not> readable e (snd r) doc \<longrightarrow>
             LogReadError (filePath doc) \<in> set (console (snd r)))
       \<and> (\<forall>doc \<in> set docs. readable e (snd r) doc \<longrightarrow>
             (\<exists>s. similarity_of e (snd r) text doc = Some s
                \<and> LogComparing file_name (fileName doc) s \<in> set (console (snd r))))
       \<and> documents (snd r) = documents w @
             [\<lparr>document_id = next_id (map document_id (documents w)),
               userId = session_id su, filePath = k, fileName = file_name\<rparr>]
       \<and> files (snd r) = (files w)(path_join (uploadDir e) k \<mapsto> text)"
proof -
  let ?wf = "written e text file_name w"
  have r: "r = (ScanJson (now e) (credits user - 1) file_name (expected_matches e ?wf text docs),
                scan_completed_world e (session_id su) text file_name w)"
    using post_scan_completed [OF assms(1-10)] assms(11-13) by simp
  have same: "files (snd r) = files ?wf"
    using r by (simp add: files_scan_completed_world)
  have ms: "expected_matches e (snd r) text = expected_matches e ?wf text"
    using same by (rule expected_matches_files)
  have ev: "compare_event e (snd r) text file_name = compare_event e ?wf text file_name"
    using same by (rule compare_event_files)
  have con: "console (snd r) = console w @ map (compare_event e (snd r) text file_name) docs
                @ [LogMatches (expected_matches e (snd r) text docs)]"
    unfolding ms ev using r assms(11,12) by (simp add: scan_completed_world_def Let_def)
  have e1: "expected_matches e (snd r) text (filter (readable e (snd r)) docs)
             = expected_matches e (snd r) text docs"
    by (rule expected_matches_readable)
  have e2: "expected_matches e (snd r) text docs = expected_matches e ?wf text docs"
    using ms by simp
  have "fst r = ScanJson (now e) (credits user - 1) file_name (expected_matches e ?wf text docs)"
    using r by simp
  then have one: "fst r = ScanJson (now e) (credits user - 1) file_name
                   (expected_matches e (snd r) text (filter (readable e (snd r)) docs))"
    using e1 e2 by simp
  have two: "\<forall>doc \<in> set docs. \<not> readable e (snd r) doc \<longrightarrow>
             LogReadError (filePath doc) \<in> set (console (snd r))"
  proof (intro ballI impI)
    fix doc assume "doc \<in> set docs" "\<not> readable e (snd r) doc"
    then have "LogReadError (filePath doc) \<in> compare_event e (snd r) text file_name ` set docs"
      using compare_event_unreadable [of e "snd r" doc "text" file_name] by (metis imageI)
    then show "LogReadError (filePath doc) \<in> set (console (snd r))"
      by (subst con) simp
  qed
  have three: "\<forall>doc \<in> set docs. readable e (snd r) doc \<longrightarrow>
             (\<exists>s. similarity_of e (snd r) text doc = Some s
                \<and> LogComparing file_name (fileName doc) s \<in> set (console (snd r)))"
  proof (intro ballI impI)
    fix doc assume d: "doc \<in> set docs" "readable e (snd r) doc"
    then obtain s where s: "similarity_of e (snd r) text doc = Some s"
        "compare_event e (snd r) text file_name doc = LogComparing file_name (fileName doc) s"
      using compare_event_readable by blast
    then have "LogComparing file_name (fileName doc) s
                 \<in> compare_event e (snd r) text file_name ` set docs"
      using d(1) by (metis imageI)
    then have "LogComparing file_name (fileName doc) s \<in> set (console (snd r))"
      by (subst con) simp
    then show "\<exists>s. similarity_of e (snd r) text doc = Some s
                \<and> LogComparing file_name (fileName doc) s \<in> set (console (snd r))"
      using s(1) by blast
  qed
  have four: "documents (snd r) = documents w @
             [\<lparr>document_id = next_id (map document_id (documents w)),
               userId = session_id su, filePath = k, fileName = file_name\<rparr>]"
    using r assms(11) by (simp add: scan_completed_world_def Let_def)
  have five: "files (snd r) = (files w)(path_join (uploadDir e) k \<mapsto> text)"
    using same assms(11) by (simp add: written_def)
  show ?thesis
    using one two three four five by blast
qed

lemma corpus_user: "select_user (session_id alice) (users corpus_world) = Some (member 7 User 5)"
  by (simp add: corpus_world_def select_user_def member_def alice_def)

lemma corpus_docs:
  "listExcept ''1000_new'' (documents corpus_world)
     = [stored 2 ''2_lost'' ''lost'', stored 3 ''3_same'' ''same'']"
  by (simp add: corpus_world_def listExcept_def stored_def)

lemma corpus_files:
  "(files corpus_world)(path_join (uploadDir lost_unreadable) ''1000_new'' \<mapsto> ''hello'')
     = [upload ''2_lost'' \<mapsto> ''hello'', upload ''3_same'' \<mapsto> ''hello'',
        upload ''1000_new'' \<mapsto> ''hello'']"
  by (simp add: upload_path corpus_world_def)

theorem post_scan_read_failure_skipped_witness:
  "readFails lost_unreadable ''2_lost''
   \<and> files corpus_world (upload ''2_lost'') = Some ''hello''
   \<and> fst (post_scan lost_unreadable (Some alice) ''hello'' ''new'' corpus_world)
       = ScanJson 1000 4 ''new'' [\<lparr>match_fileName = ''same'', match_similarity = ''100.00%''\<rparr>]
   \<and> LogReadError ''2_lost''
       \<in> set (console (snd (post_scan lost_unreadable (Some alice) ''hello'' ''new'' corpus_world)))
   \<and> LogComparing ''new'' ''same'' 1
       \<in> set (console (snd (post_scan lost_unreadable (Some alice) ''hello'' ''new'' corpus_world)))
   \<and> map filePath (documents (snd (post_scan lost_unreadable (Some alice) ''hello'' ''new'' corpus_world)))
       = [''2_lost'', ''3_same'', ''1000_new'']
   \<and> files (snd (post_scan lost_unreadable (Some alice) ''hello'' ''new'' corpus_world))
       = [upload ''2_lost'' \<mapsto> ''hello'', upload ''3_same'' \<mapsto> ''hello'',
          upload ''1000_new'' \<mapsto> ''hello'']"
proof -
  let ?r = "post_scan lost_unreadable (Some alice) ''hello'' ''new'' corpus_world"
  let ?docs = "[stored 2 ''2_lost'' ''lost'', stored 3 ''3_same'' ''same'']"
  have enough: "1 \<le> credits (member 7 User 5)"
    by (simp add: member_def)
  have nofail: "\<not> fails lost_unreadable op" for op
    by (simp add: lost_unreadable_def quiet_def)
  have docs: "?docs = listExcept ''1000_new'' (documents corpus_world)"
    by (simp add: corpus_docs)
  have inst: "fst ?r = ScanJson (now lost_unreadable) (credits (member 7 User 5) - 1) ''new''
                   (expected_matches lost_unreadable (snd ?r) ''hello''
                      (filter (readable lost_unreadable (snd ?r)) ?docs))
       \<and> (\<forall>doc \<in> set ?docs. \<not> readable lost_unreadable (snd ?r) doc \<longrightarrow>
             LogReadError (filePath doc) \<in> set (console (snd ?r)))
       \<and> (\<forall>doc \<in> set ?docs. readable lost_unreadable (snd ?r) doc \<longrightarrow>
             (\<exists>s. similarity_of lost_unreadable (snd ?r) ''hello'' doc = Some s
                \<and> LogComparing ''new'' (fileName doc) s \<in> set (console (snd ?r))))
       \<and> documents (snd ?r) = documents corpus_world @
             [\<lparr>document_id = next_id (map document_id (documents corpus_world)),
               userId = session_id alice, filePath = ''1000_new'', fileName = ''new''\<rparr>]
       \<and> files (snd ?r) = (files corpus_world)(path_join (uploadDir lost_unreadable) ''1000_new'' \<mapsto> ''hello'')"
    by (rule post_scan_read_failure_skipped
          [OF refl _ _ corpus_user enough nofail nofail nofail nofail nofail
              savedFileName_now(1) [symmetric] docs refl])
       simp_all
  have fs: "files (snd ?r) = [upload ''2_lost'' \<mapsto> ''hello'', upload ''3_same'' \<mapsto> ''hello'',
          upload ''1000_new'' \<mapsto> ''hello'']"
    using inst corpus_files by simp
  have lost: "\<not> readable lost_unreadable (snd ?r) (stored 2 ''2_lost'' ''lost'')"
    by (simp add: readable_def readFile_def stored_def) (simp add: lost_unreadable_def)
  have same_sim: "similarity_of lost_unreadable (snd ?r) ''hello'' (stored 3 ''3_same'' ''same'') = Some 1"
    by (simp add: similarity_of_def readFile_def fs stored_def upload_path calculateSimilarity_same)
       (simp add: lost_unreadable_def upload_def)
  have same_readable: "readable lost_unreadable (snd ?r) (stored 3 ''3_same'' ''same'')"
    using same_sim by (auto simp add: readable_def similarity_of_def)
  have expected: "expected_matches lost_unreadable (snd ?r) ''hello'' [stored 3 ''3_same'' ''same'']
     = [\<lparr>match_fileName = ''same'', match_similarity = ''100.00%''\<rparr>]"
    by (simp add: expected_matches_def is_match_def reported_def same_sim toFixed2_quiet
          two_decimals_100)
       (simp add: stored_def)
  have "fst ?r = ScanJson (now lost_unreadable) (credits (member 7 User 5) - 1) ''new''
                   (expected_matches lost_unreadable (snd ?r) ''hello''
                      (filter (readable lost_unreadable (snd ?r)) ?docs))"
    using inst by (rule conjunct1)
  then have one: "fst ?r = ScanJson 1000 4 ''new''
               [\<lparr>match_fileName = ''same'', match_similarity = ''100.00%''\<rparr>]"
    using lost same_readable expected by (simp add: lost_unreadable_def quiet_def member_def)
  have "LogReadError (filePath (stored 2 ''2_lost'' ''lost'')) \<in> set (console (snd ?r))"
    using inst lost by simp
  then have two: "LogReadError ''2_lost'' \<in> set (console (snd ?r))"
    by (simp add: stored_def)
  have "\<exists>s. similarity_of lost_unreadable (snd ?r) ''hello'' (stored 3 ''3_same'' ''same'') = Some s
          \<and> LogComparing ''new'' (fileName (stored 3 ''3_same'' ''same'')) s \<in> set (console (snd ?r))"
    using inst same_readable by simp
  then have three: "LogComparing ''new'' ''same'' 1 \<in> set (console (snd ?r))"
    by (simp add: same_sim) (simp add: stored_def)
  have four: "map filePath (documents (snd ?r)) = [''2_lost'', ''3_same'', ''1000_new'']"
    using inst by (simp add: corpus_world_def stored_def)
  have six: "readFails lost_unreadable ''2_lost''"
    by (simp add: lost_unreadable_def)
  have seven: "files corpus_world (upload ''2_lost'') = Some ''hello''"
    by (simp add: corpus_world_def upload_def)
  show ?thesis
    using one two three four fs six seven by (intro conjI)
qed

section \<open>Documents sharing the new storage key\<close>

lemma similarity_of_documents [simp]:
  "similarity_of e (w\<lparr>documents := ds\<rparr>) text doc = similarity_of e w text doc"
  by (simp add: similarity_of_def readFile_def)

lemma is_match_documents [simp]:
  "is_match e (w\<lparr>documents := ds\<rparr>) text = is_match e w text"
  by (rule ext) (simp add: is_match_def)

lemma reported_documents [simp]:
  "reported e (w\<lparr>documents := ds\<rparr>) text = reported e w text"
  by (rule ext) (simp add: reported_def)

lemma compare_event_documents [simp]:
  "compare_event e (w\<lparr>documents := ds\<rparr>) text file_name = compare_event e w text file_name"
  by (rule ext) (simp add: compare_event_def)

lemma expected_matches_documents [simp]:
  "expected_matches e (w\<lparr>documents := ds\<rparr>) text = expected_matches e w text"
  by (rule ext) (simp add: expected_matches_def)

lemma written_documents:
  "written e text file_name (w\<lparr>documents := ds\<rparr>) = (written e text file_name w)\<lparr>documents := ds\<rparr>"
  by (simp add: written_def)

text \<open>
  C10. The listing returns each stored row as often as it is stored when its key
  differs from the given key, and never when its key is that key. So when an existing
  document already has the storage key of the new submission, the scan answers and
  logs exactly as if that document were not in the table: its file now holds the new
  text, and it is not among the documents compared.
\<close>

theorem listExcept_excludes_colliding_key:
  assumes "session = Some su" "text \<noteq> []" "file_name \<noteq> []"
    and "select_user (session_id su) (users w) = Some user" "1 \<le> credits user"
    and "\<not> fails e Scan_SelectCredits" "\<not> fails e Scan_UpdateCredits"
        "\<not> fails e Scan_WriteFile" "\<not> fails e Scan_InsertDocument"
        "\<not> fails e Scan_SelectDocuments"
    and "k = savedFileName_of (now e) file_name"
    and "r = post_scan e session text file_name w"
    and "r' = post_scan e session text file_name (w\<lparr>documents := listExcept k (documents w)\<rparr>)"
  shows "(\<forall>key rows doc. count_list (listExcept key rows) doc
            = (if filePath doc = key then 0 else count_list rows doc))
       \<and> fst r = fst r'
       \<and> console (snd r) = console (snd r')
       \<and> files (snd r) (path_join (uploadDir e) k) = Some text
       \<and> (\<forall>old \<in> set (documents w). filePath old = k \<longrightarrow>
             old \<notin> set (listExcept k (documents (snd r))))"
proof -
  let ?w' = "w\<lparr>documents := listExcept k (documents w)\<rparr>"
  let ?wf = "written e text file_name w"
  have r: "r = (ScanJson (now e) (credits user - 1) file_name
                  (expected_matches e ?wf text (listExcept k (documents w))),
                scan_completed_world e (session_id su) text file_name w)"
    using post_scan_completed [OF assms(1-10)] assms(11,12) by simp
  have sel: "select_user (session_id su) (users ?w') = Some user"
    using assms(4) by simp
  have r': "r' = (ScanJson (now e) (credits user - 1) file_name
                  (expected_matches e ?wf text (listExcept k (documents w))),
                scan_completed_world e (session_id su) text file_name ?w')"
    using post_scan_completed [OF assms(1-3) sel assms(5-10)] assms(11,13)
    by (simp add: listExcept_idem written_documents)
  have one: "fst r = fst r'"
    using r r' by simp
  have two: "console (snd r) = console (snd r')"
    using r r' assms(11)
    by (simp add: scan_completed_world_def Let_def listExcept_idem written_documents)
  have three: "files (snd r) (path_join (uploadDir e) k) = Some text"
    using r assms(11) by (simp add: scan_completed_world_def Let_def written_def)
  have four: "\<forall>old \<in> set (documents w). filePath old = k \<longrightarrow>
             old \<notin> set (listExcept k (documents (snd r)))"
    by (simp add: listExcept_def)
  show ?thesis
    using one two three four count_list_listExcept by blast
qed

lemma collision_user: "select_user (session_id alice) (users collision_world) = Some (member 7 User 5)"
  by (simp add: collision_world_def select_user_def member_def alice_def)

lemma collision_docs: "listExcept ''1000_new'' (documents collision_world) = []"
  by (simp add: collision_world_def listExcept_def stored_def)

theorem listExcept_excludes_colliding_key_witness:
  "stored 2 ''1000_new'' ''new'' \<in> set (documents collision_world)
   \<and> filePath (stored 2 ''1000_new'' ''new'') = savedFileName_of (now (quiet 1000)) ''new''
   \<and> files collision_world (upload ''1000_new'') = Some ''first''
   \<and> fst (post_scan (quiet 1000) (Some alice) ''second'' ''new'' collision_world)
       = ScanJson 1000 4 ''new'' []
   \<and> files (snd (post_scan (quiet 1000) (Some alice) ''second'' ''new'' collision_world))
        (upload ''1000_new'')
       = Some ''second''
   \<and> stored 2 ''1000_new'' ''new''
       \<notin> set (listExcept ''1000_new''
                (documents (snd (post_scan (quiet 1000) (Some alice) ''second'' ''new'' collision_world))))
   \<and> count_list (listExcept ''1000_new'' (documents collision_world)) (stored 2 ''1000_new'' ''new'') = 0"
proof -
  let ?r = "post_scan (quiet 1000) (Some alice) ''second'' ''new'' collision_world"
  let ?w' = "collision_world\<lparr>documents := listExcept ''1000_new'' (documents collision_world)\<rparr>"
  let ?r' = "post_scan (quiet 1000) (Some alice) ''second'' ''new'' ?w'"
  have enough: "1 \<le> credits (member 7 User 5)"
    by (simp add: member_def)
  have nofail: "\<not> fails (quiet 1000) op" for op
    by (simp add: quiet_def)
  have old: "stored 2 ''1000_new'' ''new'' \<in> set (documents collision_world)"
    by (simp add: collision_world_def)
  have path: "filePath (stored 2 ''1000_new'' ''new'') = ''1000_new''"
    by (simp add: stored_def)
  have resolved: "path_join (uploadDir (quiet 1000)) ''1000_new'' = upload ''1000_new''"
    by (simp add: upload_path)
  have inst: "(\<forall>key rows doc. count_list (listExcept key rows) doc
            = (if filePath doc = key then 0 else count_list rows doc))
       \<and> fst ?r = fst ?r'
       \<and> console (snd ?r) = console (snd ?r')
       \<and> files (snd ?r) (path_join (uploadDir (quiet 1000)) ''1000_new'') = Some ''second''
       \<and> (\<forall>old \<in> set (documents collision_world). filePath old = ''1000_new'' \<longrightarrow>
             old \<notin> set (listExcept ''1000_new'' (documents (snd ?r))))"
    by (rule listExcept_excludes_colliding_key
          [OF refl _ _ collision_user enough nofail nofail nofail nofail nofail
              savedFileName_now(2) [symmetric] refl refl])
       simp_all
  have user': "select_user (session_id alice) (users ?w') = Some (member 7 User 5)"
    using collision_user by simp
  have docs': "listExcept (savedFileName_of (now (quiet 1000)) ''new'') (documents ?w') = []"
    by (simp add: savedFileName_now collision_docs) (simp add: listExcept_def)
  have "?r' = (ScanJson (now (quiet 1000)) (credits (member 7 User 5) - 1) ''new''
        (expected_matches (quiet 1000) (written (quiet 1000) ''second'' ''new'' ?w') ''second''
           (listExcept (savedFileName_of (now (quiet 1000)) ''new'') (documents ?w'))),
      scan_completed_world (quiet 1000) (session_id alice) ''second'' ''new'' ?w')"
    by (rule post_scan_completed [OF refl _ _ user' enough nofail nofail nofail nofail nofail])
       simp_all
  then have "?r' = (ScanJson (now (quiet 1000)) (credits (member 7 User 5) - 1) ''new''
        (expected_matches (quiet 1000) (written (quiet 1000) ''second'' ''new'' ?w') ''second'' []),
      scan_completed_world (quiet 1000) (session_id alice) ''second'' ''new'' ?w')"
    unfolding docs' .
  then have "fst ?r' = ScanJson 1000 4 ''new'' []"
    by (simp add: expected_matches_def member_def quiet_def)
  then have one: "fst ?r = ScanJson 1000 4 ''new'' []"
    using inst by simp
  have two: "files (snd ?r) (upload ''1000_new'') = Some ''second''"
    using inst resolved by simp
  have three: "stored 2 ''1000_new'' ''new'' \<notin> set (listExcept ''1000_new'' (documents (snd ?r)))"
    using inst old path by blast
  have four: "count_list (listExcept ''1000_new'' (documents collision_world))
                (stored 2 ''1000_new'' ''new'') = 0"
    using inst path by simp
  have five: "filePath (stored 2 ''1000_new'' ''new'') = savedFileName_of (now (quiet 1000)) ''new''"
    using path by (simp add: savedFileName_now)
  have six: "files collision_world (upload ''1000_new'') = Some ''first''"
    by (simp add: collision_world_def)
  show ?thesis
    using old five six one two three four by (intro conjI)
qed

section \<open>Balances over sequences of requests\<close>

text \<open>
  When every handler runs from its first statement to its response before the next
  one starts, and no credit request sends a string as its amount, the handlers keep
  the identifiers of \<open>users\<close> distinct, the balances non-negative and the stored amounts
  numbers of at least 1.
\<close>

lemma fold_max_ge: "a \<le> fold max ids (a::nat)"
  by (induction ids arbitrary: a) (auto intro: order_trans [OF max.cobounded2])

lemma fold_max_member: "i \<in> set ids \<Longrightarrow> i \<le> fold max ids (a::nat)"
proof (induction ids arbitrary: a)
  case Nil
  then show ?case by simp
next
  case (Cons j ids)
  show ?case
  proof (cases "i = j")
    case True
    have "j \<le> max j a" by simp
    also have "\<dots> \<le> fold max ids (max j a)" by (rule fold_max_ge)
    finally show ?thesis using True by simp
  next
    case False
    then show ?thesis using Cons by simp
  qed
qed

lemma next_id_fresh: "next_id ids \<notin> set ids"
  using fold_max_member [of "next_id ids" ids 0] by (auto simp add: next_id_def)

lemma user_id_update_credits [simp]: "map user_id (update_credits f i us) = map user_id us"
  by (induction us) (simp_all add: update_credits_def)

lemma select_user_unique:
  assumes "distinct (map user_id us)" "select_user i us = Some user" "u \<in> set us" "user_id u = i"
  shows "u = user"
proof -
  have "user \<in> set us" "user_id user = i"
    using assms(2) by (auto simp add: select_user_def find_Some_iff)
  moreover have "inj_on user_id (set us)"
    using assms(1) by (simp add: distinct_map)
  ultimately show ?thesis
    using assms(3,4) by (auto dest: inj_onD)
qed

lemma list_all_mapI: "(\<And>u. u \<in> set us \<Longrightarrow> P (g u)) \<Longrightarrow> list_all P (map g us)"
  by (induction us) auto

lemma user_id_reset:
  "map (user_id \<circ> (\<lambda>u. if role u = User then u\<lparr>credits := 20\<rparr> else u)) us = map user_id us"
  by (induction us) auto

lemma deduct_nonneg:
  assumes "distinct (map user_id us)" "list_all (\<lambda>u. 0 \<le> credits u) us"
    and "select_user i us = Some user" "1 \<le> credits user"
  shows "list_all (\<lambda>u. 0 \<le> credits u) (update_credits (\<lambda>c. c - 1) i us)"
proof -
  have "0 \<le> credits (if user_id u = i then u\<lparr>credits := credits u - 1\<rparr> else u)"
    if u: "u \<in> set us" for u
  proof -
    show "0 \<le> credits (if user_id u = i then u\<lparr>credits := credits u - 1\<rparr> else u)"
    proof (cases "user_id u = i")
      case True
      then have "u = user" using select_user_unique [OF assms(1,3) u] by simp
      then show ?thesis using True assms(4) by simp
    next
      case False
      then show ?thesis using u assms(2) by (simp add: list_all_iff)
    qed
  qed
  then show ?thesis
    unfolding update_credits_def by (rule list_all_mapI)
qed

lemma grant_nonneg:
  assumes "list_all (\<lambda>u. 0 \<le> credits u) us" "0 \<le> n"
  shows "list_all (\<lambda>u. 0 \<le> credits u) (update_credits (\<lambda>c. c + n) i us)"
  using assms by (auto simp add: update_credits_def list_all_iff)

lemma select_request_member: "select_request i rs = Some r \<Longrightarrow> r \<in> set rs"
  by (auto simp add: select_request_def find_Some_iff)

lemma set_status_amounts:
  "list_all (\<lambda>r. P (amount r)) rs \<Longrightarrow> list_all (\<lambda>r. P (amount r)) (set_status s i rs)"
  by (auto simp add: set_status_def list_all_iff)

lemma post_scan_tables:
  "credit_requests (snd (post_scan e session text file_name w)) = credit_requests w
   \<and> (users (snd (post_scan e session text file_name w)) = users w
      \<or> (\<exists>su user. session = Some su \<and> select_user (session_id su) (users w) = Some user
            \<and> 1 \<le> credits user
            \<and> users (snd (post_scan e session text file_name w))
                = update_credits (\<lambda>c. c - 1) (session_id su) (users w)))"
  by (auto simp add: post_scan_def Let_def internal_error_def console_log_def
        compareDocs_eq scan_respond_def
      split: option.splits)

lemma post_scan_consistent:
  assumes "db_consistent w"
  shows "db_consistent (snd (post_scan e session text file_name w))"
  using assms post_scan_tables [of e session "text" file_name w]
  by (auto simp add: db_consistent_def credits_nonneg_def requests_valid_def deduct_nonneg)

lemma post_credits_request_consistent:
  assumes "db_consistent w" "\<forall>s. amt \<noteq> JString s"
  shows "db_consistent (snd (post_credits_request e session amt w))"
  using assms
  by (cases amt)
     (auto simp add: post_credits_request_def db_consistent_def credits_nonneg_def
        requests_valid_def internal_error_def console_log_def split: option.splits)

lemma post_admin_approve_request_consistent:
  assumes "db_consistent w"
  shows "db_consistent (snd (post_admin_approve_request e session requestId w))"
proof (cases "select_request requestId (credit_requests w)")
  case None
  then show ?thesis using assms
    by (simp add: post_admin_approve_request_def db_consistent_def credits_nonneg_def
          requests_valid_def internal_error_def console_log_def)
next
  case (Some request)
  then have "case amount request of Number n \<Rightarrow> 1 \<le> n | Text s \<Rightarrow> False"
    using assms select_request_member [OF Some]
    by (simp add: db_consistent_def requests_valid_def list_all_iff)
  then have "0 \<le> sqlite_operand e (amount request)"
    by (cases "amount request") simp_all
  then have "list_all (\<lambda>u. 0 \<le> credits u)
               (update_credits (\<lambda>c. c + sqlite_operand e (amount request))
                  (request_userId request) (users w))"
    using assms by (simp add: grant_nonneg db_consistent_def credits_nonneg_def)
  then show ?thesis using assms Some
    by (simp add: post_admin_approve_request_def db_consistent_def credits_nonneg_def
          requests_valid_def internal_error_def console_log_def Let_def set_status_amounts)
qed

lemma post_admin_reject_request_consistent:
  assumes "db_consistent w"
  shows "db_consistent (snd (post_admin_reject_request e session requestId w))"
  using assms
  by (simp add: post_admin_reject_request_def db_consistent_def credits_nonneg_def
        requests_valid_def internal_error_def console_log_def set_status_amounts)

lemma post_auth_register_consistent:
  assumes "db_consistent w"
  shows "db_consistent (snd (post_auth_register e uname mail pw hashed w))"
  using assms next_id_fresh [of "map user_id (users w)"]
  by (auto simp add: post_auth_register_def db_consistent_def credits_nonneg_def
        requests_valid_def internal_error_def console_log_def split: option.splits)

lemma createAdminUser_consistent:
  assumes "db_consistent w"
  shows "db_consistent (createAdminUser adminPassword uname mail hashed w)"
  using assms next_id_fresh [of "map user_id (users w)"]
  by (auto simp add: createAdminUser_def db_consistent_def credits_nonneg_def
        requests_valid_def console_log_def split: option.splits)

lemma reset_credits_consistent:
  assumes "db_consistent w"
  shows "db_consistent (reset_credits e w)"
  using assms
  by (auto simp add: reset_credits_def db_consistent_def credits_nonneg_def
        requests_valid_def console_log_def list_all_iff user_id_reset Let_def)

lemma numeric_request_amount:
  "numeric_request (RequestCredits e session amt) \<Longrightarrow> \<forall>s. amt \<noteq> JString s"
  by (cases amt) simp_all

lemma exec_consistent:
  "db_consistent w \<Longrightarrow> numeric_request op \<Longrightarrow> db_consistent (exec op w)"
  by (cases op)
     (simp_all add: post_scan_consistent post_credits_request_consistent numeric_request_amount
        post_admin_approve_request_consistent post_admin_reject_request_consistent
        post_auth_register_consistent createAdminUser_consistent reset_credits_consistent)

lemma run_consistent:
  "db_consistent w \<Longrightarrow> list_all numeric_request ops \<Longrightarrow> db_consistent (run ops w)"
  by (induction ops arbitrary: w) (simp_all add: exec_consistent)

lemma initial_world_consistent: "db_consistent initial_world"
  by (simp add: db_consistent_def initial_world_def credits_nonneg_def requests_valid_def)


lemma numeric_requests_keep_credits_nonneg:
  "db_consistent w \<Longrightarrow> list_all numeric_request ops \<Longrightarrow> credits_nonneg (run ops w)"
  using run_consistent [of w ops] by (simp add: db_consistent_def)

section \<open>A text as the requested amount\<close>

lemma registered_world:
  "run registered initial_world =
     initial_world\<lparr>users := [\<lparr>user_id = 1, username = ''bob'', email = ''bob@example.com'',
                                password = ''hash'', role = User, credits = 20\<rparr>]\<rparr>"
  by (simp add: registered_def initial_world_def post_auth_register_def quiet_def next_id_def)

lemma run_append: "run (ops @ ops') w = run ops' (run ops w)"
  by (induction ops arbitrary: w) simp_all

lemma requested_world:
  "run requested initial_world =
     initial_world\<lparr>users := [\<lparr>user_id = 1, username = ''bob'', email = ''bob@example.com'',
                                password = ''hash'', role = User, credits = 20\<rparr>],
                    credit_requests := [\<lparr>request_id = 1, request_userId = 1,
                                          amount = Text ''-25abc'', status = Pending\<rparr>]\<rparr>"
  by (simp add: requested_def run_append registered_world)
     (simp add: initial_world_def post_credits_request_def quiet_def next_id_def bob_def)

text \<open>
  C9. The claim is that balances are non-negative integers and that no sequence of
  operations makes one negative. The credit request handler lets the string \<open>-25abc\<close>
  pass as an amount: it is not falsy, and \<open>'-25abc' < 1\<close> is false. The approval adds
  what SQLite reads from that text, -25. On a fresh database, a registration (balance
  20), that request (answered 200) and its approval (answered 200) leave the balance
  at -5.
\<close>

theorem text_amount_overdraws:
  "map credits (users (run registered initial_world)) = [20]
   \<and> fst (post_credits_request (quiet 2) (Some bob) (JString ''-25abc'')
            (run registered initial_world))
       = Json 200 ''Credit request submitted for admin approval.''
   \<and> map amount (credit_requests (run requested initial_world)) = [Text ''-25abc'']
   \<and> fst (post_admin_approve_request (quiet 3) (Some root) 1 (run requested initial_world))
       = ApprovedJson (Text ''-25abc'') 1
   \<and> map credits (users (run text_amount_day initial_world)) = [- 5]"
proof -
  have one: "map credits (users (run registered initial_world)) = [20]"
    by (simp add: registered_world)
  have two: "fst (post_credits_request (quiet 2) (Some bob) (JString ''-25abc'')
            (run registered initial_world))
       = Json 200 ''Credit request submitted for admin approval.''"
    by (simp add: registered_world post_credits_request_def quiet_def)
  have three: "map amount (credit_requests (run requested initial_world)) = [Text ''-25abc'']"
    by (simp add: requested_world)
  have four: "fst (post_admin_approve_request (quiet 3) (Some root) 1 (run requested initial_world))
       = ApprovedJson (Text ''-25abc'') 1"
    by (simp add: requested_world post_admin_approve_request_def is_admin_def root_def quiet_def
          select_request_def Let_def)
  have five: "map credits (users (run text_amount_day initial_world)) = [- 5]"
    by (simp add: text_amount_day_def run_append requested_world)
       (simp add: post_admin_approve_request_def is_admin_def root_def quiet_def
          select_request_def update_credits_def set_status_def Let_def)
  show ?thesis
    using one two three four five by (intro conjI)
qed

section \<open>Deciding a credit request twice\<close>

lemma approve_once:
  "post_admin_approve_request (quiet 1000) (Some root) 4 grant_world
     = (ApprovedJson (Number 5) 7,
        grant_world\<lparr>users := [member 7 User 25, member 8 Admin 9999],
                     credit_requests := [\<lparr>request_id = 4, request_userId = 7, amount = Number 5, status = Approved\<rparr>]\<rparr>)"
  by (simp add: post_admin_approve_request_def is_admin_def root_def quiet_def grant_world_def
        select_request_def update_credits_def set_status_def member_def Let_def)

lemma approve_again:
  "post_admin_approve_request (quiet 1000) (Some root) 4
       (grant_world\<lparr>users := [member 7 User 25, member 8 Admin 9999],
                     credit_requests := [\<lparr>request_id = 4, request_userId = 7, amount = Number 5, status = Approved\<rparr>]\<rparr>)
     = (ApprovedJson (Number 5) 7,
        grant_world\<lparr>users := [member 7 User 30, member 8 Admin 9999],
                     credit_requests := [\<lparr>request_id = 4, request_userId = 7, amount = Number 5, status = Approved\<rparr>]\<rparr>)"
  by (simp add: post_admin_approve_request_def is_admin_def root_def quiet_def grant_world_def
        select_request_def update_credits_def set_status_def member_def Let_def)

lemma reject_after_approve:
  "post_admin_reject_request (quiet 1000) (Some root) 4
       (grant_world\<lparr>users := [member 7 User 25, member 8 Admin 9999],
                     credit_requests := [\<lparr>request_id = 4, request_userId = 7, amount = Number 5, status = Approved\<rparr>]\<rparr>)
     = (Json 200 ''Credit request rejected successfully!'',
        grant_world\<lparr>users := [member 7 User 25, member 8 Admin 9999],
                     credit_requests := [\<lparr>request_id = 4, request_userId = 7, amount = Number 5, status = Rejected\<rparr>]\<rparr>)"
  by (simp add: post_admin_reject_request_def is_admin_def root_def quiet_def grant_world_def
        set_status_def Let_def)

text \<open>
  C2. The claim is that a second decision on the same request is refused and that
  credits are granted at most once. The handlers do otherwise: approving request 4
  (5 credits for user 7, who holds 20) twice answers 200 both times and leaves the
  balance at 30; rejecting it after the approval answers 200 as well and marks the
  granted request as rejected.
\<close>

theorem decide_twice_grants_twice:
  "map status (credit_requests grant_world) = [Pending]
   \<and> map credits (users grant_world) = [20, 9999]
   \<and> fst (post_admin_approve_request (quiet 1000) (Some root) 4 grant_world)
       = ApprovedJson (Number 5) 7
   \<and> fst (post_admin_approve_request (quiet 1000) (Some root) 4
            (snd (post_admin_approve_request (quiet 1000) (Some root) 4 grant_world)))
       = ApprovedJson (Number 5) 7
   \<and> map credits (users (snd (post_admin_approve_request (quiet 1000) (Some root) 4
            (snd (post_admin_approve_request (quiet 1000) (Some root) 4 grant_world)))))
       = [30, 9999]
   \<and> fst (post_admin_reject_request (quiet 1000) (Some root) 4
            (snd (post_admin_approve_request (quiet 1000) (Some root) 4 grant_world)))
       = Json 200 ''Credit request rejected successfully!''
   \<and> map status (credit_requests (snd (post_admin_reject_request (quiet 1000) (Some root) 4
            (snd (post_admin_approve_request (quiet 1000) (Some root) 4 grant_world)))))
       = [Rejected]"
  by (simp add: approve_once approve_again reject_after_approve)
     (simp add: grant_world_def member_def)

section \<open>Two scans in flight\<close>

text \<open>
  One after the other, the same two scans end as the check intends: the second is
  refused and the balance is 0.
\<close>

lemma one_credit_user:
  "select_user (session_id alice) (users one_credit_world) = Some (member 7 User 1)"
  by (simp add: one_credit_world_def select_user_def member_def alice_def)

lemma two_scans_users: "users (run two_scans one_credit_world) = [member 7 User 0]"
proof -
  let ?w1 = "scan_completed_world (quiet 1000) (session_id alice) ''hello'' ''a.txt'' one_credit_world"
  have enough: "1 \<le> credits (member 7 User 1)"
    by (simp add: member_def)
  have nofail: "\<not> fails (quiet t) op" for t op
    by (simp add: quiet_def)
  have first: "snd (post_scan (quiet 1000) (Some alice) ''hello'' ''a.txt'' one_credit_world) = ?w1"
    using post_scan_completed [OF refl _ _ one_credit_user enough nofail nofail nofail nofail nofail,
            of "''hello''" "''a.txt''"]
    by simp
  have users1: "users ?w1 = [member 7 User 0]"
    by (simp add: scan_completed_world_def Let_def one_credit_world_def update_credits_def
          member_def alice_def)
  have user1: "select_user (session_id alice) (users ?w1) = Some (member 7 User 0)"
    unfolding users1 by (simp add: select_user_def member_def alice_def)
  have low: "credits (member 7 User 0) < 1"
    by (simp add: member_def)
  have second: "snd (post_scan (quiet 1001) (Some alice) ''hello'' ''b.txt'' ?w1) = ?w1"
    using post_scan_rejected [OF _ _ nofail user1 low, of "''hello''" "''b.txt''" 1001]
    by simp
  show ?thesis
    by (simp add: two_scans_def first second users1)
qed


text \<open>
  C1. The claim is that of two concurrent scans of a user with one credit exactly one
  succeeds and the balance ends at 0. With both balance reads completing before either
  update, both requests pass the check, both are answered 200 with \<open>creditsLeft = 0\<close>,
  and the stored balance ends at -1.
\<close>

theorem concurrent_scans_overdraw:
  "map credits (users one_credit_world) = [1]
   \<and> map task_pc (fst (run_schedule [0, 1, 0, 0, 0, 0, 1, 1, 1, 1, 1]
                          (racing_scans, one_credit_world)))
       = [Finished (ScanJson 1000 0 ''a.txt'' []),
          Finished (ScanJson 1001 0 ''b.txt''
            [\<lparr>match_fileName = ''a.txt'', match_similarity = ''100.00%''\<rparr>])]
   \<and> map credits (users (snd (run_schedule [0, 1, 0, 0, 0, 0, 1, 1, 1, 1, 1]
                                   (racing_scans, one_credit_world))))
       = [- 1]"
  by (simp add: racing_scans_def new_task_def scan_start_def alice_def one_credit_world_def
        step_task_def quiet_def select_user_def member_def update_credits_def
        savedFileName_of_def decimal.simps digitChar_def next_id_def listExcept_def
        scan_next_doc_def scan_respond_def console_log_def compareDoc_def readFile_def
        path_join_def calculateSimilarity_same two_decimals_100 Let_def)

end
